theory Spec2Isabelle
  imports Main "HOL-Library.Word"
begin

section \<open>The FIPS provider entry points (providers/fips/fipsprov.c)\<close>

subsection \<open>Constants of the included headers\<close>

text \<open>
  The file includes \<^verbatim>\<open>openssl/core_numbers.h\<close>, \<^verbatim>\<open>openssl/core.h\<close> and
  \<^verbatim>\<open>openssl/opensslv.h\<close>, whose macro values are not part of the file. The names of the
  function-id macros are a datatype; the values the headers give them, together with the
  other macros the file reads, are a parameter \<open>H\<close> of every function that uses one.
\<close>

datatype core_number =
    OSSL_FUNC_CORE_GET_PARAM_TYPES
  | OSSL_FUNC_CORE_GET_PARAMS
  | OSSL_FUNC_CORE_PUT_ERROR
  | OSSL_FUNC_CORE_ADD_ERROR_VDATA
  | OSSL_FUNC_CORE_GET_CRYPTO_MALLOC
  | OSSL_FUNC_CORE_GET_CRYPTO_ZALLOC
  | OSSL_FUNC_CORE_GET_CRYPTO_MEMDUP
  | OSSL_FUNC_CORE_GET_CRYPTO_STRDUP
  | OSSL_FUNC_CORE_GET_CRYPTO_STRNDUP
  | OSSL_FUNC_CORE_GET_CRYPTO_FREE
  | OSSL_FUNC_CORE_GET_CRYPTO_CLEAR_FREE
  | OSSL_FUNC_CORE_GET_CRYPTO_REALLOC
  | OSSL_FUNC_CORE_GET_CRYPTO_CLEAR_REALLOC
  | OSSL_FUNC_CORE_GET_CRYPTO_SECURE_MALLOC
  | OSSL_FUNC_CORE_GET_CRYPTO_SECURE_ZALLOC
  | OSSL_FUNC_CORE_GET_CRYPTO_SECURE_FREE
  | OSSL_FUNC_CORE_GET_CRYPTO_SECURE_CLEAR_FREE
  | OSSL_FUNC_CORE_GET_CRYPTO_SECURE_MALLOC_INITIALIZED
  | OSSL_FUNC_PROVIDER_TEARDOWN
  | OSSL_FUNC_PROVIDER_GET_PARAM_TYPES
  | OSSL_FUNC_PROVIDER_GET_PARAMS
  | OSSL_FUNC_PROVIDER_QUERY_OPERATION

record headers =
  OSSL_FUNC :: "core_number \<Rightarrow> int"
  OSSL_OP_DIGEST :: int
  OSSL_PARAM_UTF8_PTR :: nat
  OPENSSL_VERSION_STR :: string
  OPENSSL_FULL_VERSION_STR :: string

subsection \<open>Function pointers and dispatch tables\<close>

text \<open>
  A function pointer is \<open>NULL\<close>, a function of the core (known only by its address), or
  one of the functions the provider puts into its own tables.
\<close>

datatype funptr =
    NULL
  | Core_function nat
  | Fn_OPENSSL_CTX_free
  | Fn_fips_get_param_types
  | Fn_fips_get_params
  | Fn_fips_query

text \<open>\<^verbatim>\<open>OSSL_DISPATCH\<close>: the field \<^verbatim>\<open>function\<close> is called \<open>func\<close> here.\<close>

record ossl_dispatch =
  function_id :: int
  func :: funptr

text \<open>
  A pointer to a dispatch table: the two static tables of this file, the table
  \<^verbatim>\<open>sha256_functions\<close> declared \<^verbatim>\<open>extern\<close>, or any other address.
\<close>

datatype dispatch_ptr =
    Fips_dispatch_table
  | Intern_dispatch_table
  | Sha256_functions
  | Other_table nat

definition fips_dispatch_table :: "headers \<Rightarrow> ossl_dispatch list" where
  "fips_dispatch_table H =
     [ \<lparr>function_id = OSSL_FUNC H OSSL_FUNC_PROVIDER_TEARDOWN, func = Fn_OPENSSL_CTX_free\<rparr>,
       \<lparr>function_id = OSSL_FUNC H OSSL_FUNC_PROVIDER_GET_PARAM_TYPES, func = Fn_fips_get_param_types\<rparr>,
       \<lparr>function_id = OSSL_FUNC H OSSL_FUNC_PROVIDER_GET_PARAMS, func = Fn_fips_get_params\<rparr>,
       \<lparr>function_id = OSSL_FUNC H OSSL_FUNC_PROVIDER_QUERY_OPERATION, func = Fn_fips_query\<rparr>,
       \<lparr>function_id = 0, func = NULL\<rparr> ]"

definition intern_dispatch_table :: "headers \<Rightarrow> ossl_dispatch list" where
  "intern_dispatch_table H =
     [ \<lparr>function_id = OSSL_FUNC H OSSL_FUNC_PROVIDER_QUERY_OPERATION, func = Fn_fips_query\<rparr>,
       \<lparr>function_id = 0, func = NULL\<rparr> ]"

text \<open>The contents of the static tables a pointer can be followed to.\<close>

fun static_table :: "headers \<Rightarrow> dispatch_ptr \<Rightarrow> ossl_dispatch list option" where
  "static_table H Fips_dispatch_table = Some (fips_dispatch_table H)"
| "static_table H Intern_dispatch_table = Some (intern_dispatch_table H)"
| "static_table H Sha256_functions = None"
| "static_table H (Other_table a) = None"

subsection \<open>The state the entry points act on\<close>

text \<open>
  The static pointers \<^verbatim>\<open>c_get_param_types\<close> ... \<^verbatim>\<open>c_OPENSSL_cleanse\<close> of the file, one
  constructor each; the registry maps each to the pointer it holds. \<^verbatim>\<open>c_put_error\<close> and
  \<^verbatim>\<open>c_add_error_vdata\<close> are assigned and called in the file and declared outside it;
  \<^verbatim>\<open>c_OPENSSL_cleanse\<close> is declared and called in the file and assigned nowhere in it.
\<close>

datatype core_fn =
    c_get_param_types
  | c_get_params
  | c_put_error
  | c_add_error_vdata
  | c_CRYPTO_malloc
  | c_CRYPTO_zalloc
  | c_CRYPTO_memdup
  | c_CRYPTO_strdup
  | c_CRYPTO_strndup
  | c_CRYPTO_free
  | c_CRYPTO_clear_free
  | c_CRYPTO_realloc
  | c_CRYPTO_clear_realloc
  | c_CRYPTO_secure_malloc
  | c_CRYPTO_secure_zalloc
  | c_CRYPTO_secure_free
  | c_CRYPTO_secure_clear_free
  | c_CRYPTO_secure_malloc_initialized
  | c_OPENSSL_cleanse

type_synonym registry = "core_fn \<Rightarrow> funptr"

text \<open>
  \<open>registry\<close> is the module's static pointers; \<open>live_ctx\<close> the library contexts that are
  allocated and not freed; \<open>out\<close> and \<open>provctx\<close> the caller's two slots the entry points
  write through their pointer arguments (\<open>provctx = None\<close> is a null handle).
  \<open>ctx_created\<close> and \<open>self_checks\<close> are not program variables: they count the
  successful calls of \<^verbatim>\<open>OPENSSL_CTX_new\<close> and the calls of \<^verbatim>\<open>dummy_evp_call\<close>.
\<close>

record prov_state =
  registry :: registry
  live_ctx :: "nat set"
  ctx_created :: nat
  self_checks :: nat
  out :: dispatch_ptr
  provctx :: "nat option"

subsection \<open>The algorithm query\<close>

text \<open>\<^verbatim>\<open>OSSL_ALGORITHM\<close>.\<close>

record ossl_algorithm =
  algorithm_name :: string
  property_definition :: string
  implementation :: dispatch_ptr

definition fips_digests :: "ossl_algorithm list" where
  "fips_digests =
     [ \<lparr>algorithm_name = ''SHA256'', property_definition = ''fips=yes'',
        implementation = Sha256_functions\<rparr> ]"

text \<open>
  \<^verbatim>\<open>fips_query\<close>: the argument \<open>no_cache\<close> is what \<^verbatim>\<open>*no_cache\<close> holds at the call, the
  second component of the result what it holds at the return; the first component is the
  returned pointer, \<open>None\<close> for \<^verbatim>\<open>NULL\<close>. The list stands for the array up to its
  terminator.
\<close>

definition fips_query :: "headers \<Rightarrow> nat \<Rightarrow> int \<Rightarrow> int \<Rightarrow> ossl_algorithm list option \<times> int" where
  "fips_query H prov operation_id no_cache =
     (let no_cache = 0 in
      if operation_id = OSSL_OP_DIGEST H then (Some fips_digests, no_cache)
      else (None, no_cache))"

subsection \<open>The internal entry point\<close>

definition fips_intern_provider_init ::
  "nat \<Rightarrow> ossl_dispatch list \<Rightarrow> prov_state \<Rightarrow> int \<times> prov_state" where
  "fips_intern_provider_init provider in_table s = (1, s\<lparr>out := Intern_dispatch_table\<rparr>)"

subsection \<open>Scanning the core's dispatch table\<close>

text \<open>
  Modelled from the spec: the accessors \<^verbatim>\<open>OSSL_get_core_get_params\<close>, ... of
  \<^verbatim>\<open>openssl/core_numbers.h\<close> are not part of the file; the consumer "stores the matched
  function pointer" and "performs no type-checking", so each returns the entry's pointer.
\<close>

definition OSSL_get :: "ossl_dispatch \<Rightarrow> funptr" where
  "OSSL_get e = func e"

text \<open>The body of the loop of \<^verbatim>\<open>OSSL_provider_init\<close>: the switch on \<^verbatim>\<open>in->function_id\<close>.\<close>

definition capture :: "headers \<Rightarrow> ossl_dispatch \<Rightarrow> registry \<Rightarrow> registry" where
  "capture H e reg =
     (if function_id e = OSSL_FUNC H OSSL_FUNC_CORE_GET_PARAM_TYPES then
        reg(c_get_param_types := OSSL_get e)
      else if function_id e = OSSL_FUNC H OSSL_FUNC_CORE_GET_PARAMS then
        reg(c_get_params := OSSL_get e)
      else if function_id e = OSSL_FUNC H OSSL_FUNC_CORE_PUT_ERROR then
        reg(c_put_error := OSSL_get e)
      else if function_id e = OSSL_FUNC H OSSL_FUNC_CORE_ADD_ERROR_VDATA then
        reg(c_add_error_vdata := OSSL_get e)
      else if function_id e = OSSL_FUNC H OSSL_FUNC_CORE_GET_CRYPTO_MALLOC then
        reg(c_CRYPTO_malloc := OSSL_get e)
      else if function_id e = OSSL_FUNC H OSSL_FUNC_CORE_GET_CRYPTO_ZALLOC then
        reg(c_CRYPTO_zalloc := OSSL_get e)
      else if function_id e = OSSL_FUNC H OSSL_FUNC_CORE_GET_CRYPTO_MEMDUP then
        reg(c_CRYPTO_memdup := OSSL_get e)
      else if function_id e = OSSL_FUNC H OSSL_FUNC_CORE_GET_CRYPTO_STRDUP then
        reg(c_CRYPTO_strdup := OSSL_get e)
      else if function_id e = OSSL_FUNC H OSSL_FUNC_CORE_GET_CRYPTO_STRNDUP then
        reg(c_CRYPTO_strndup := OSSL_get e)
      else if function_id e = OSSL_FUNC H OSSL_FUNC_CORE_GET_CRYPTO_FREE then
        reg(c_CRYPTO_free := OSSL_get e)
      else if function_id e = OSSL_FUNC H OSSL_FUNC_CORE_GET_CRYPTO_CLEAR_FREE then
        reg(c_CRYPTO_clear_free := OSSL_get e)
      else if function_id e = OSSL_FUNC H OSSL_FUNC_CORE_GET_CRYPTO_REALLOC then
        reg(c_CRYPTO_realloc := OSSL_get e)
      else if function_id e = OSSL_FUNC H OSSL_FUNC_CORE_GET_CRYPTO_CLEAR_REALLOC then
        reg(c_CRYPTO_clear_realloc := OSSL_get e)
      else if function_id e = OSSL_FUNC H OSSL_FUNC_CORE_GET_CRYPTO_SECURE_MALLOC then
        reg(c_CRYPTO_secure_malloc := OSSL_get e)
      else if function_id e = OSSL_FUNC H OSSL_FUNC_CORE_GET_CRYPTO_SECURE_ZALLOC then
        reg(c_CRYPTO_secure_zalloc := OSSL_get e)
      else if function_id e = OSSL_FUNC H OSSL_FUNC_CORE_GET_CRYPTO_SECURE_FREE then
        reg(c_CRYPTO_secure_free := OSSL_get e)
      else if function_id e = OSSL_FUNC H OSSL_FUNC_CORE_GET_CRYPTO_SECURE_CLEAR_FREE then
        reg(c_CRYPTO_secure_clear_free := OSSL_get e)
      else if function_id e = OSSL_FUNC H OSSL_FUNC_CORE_GET_CRYPTO_SECURE_MALLOC_INITIALIZED then
        reg(c_CRYPTO_secure_malloc_initialized := OSSL_get e)
      else reg)"

text \<open>
  The loop \<^verbatim>\<open>for (; in->function_id != 0; in++)\<close>. The list is the array \<^verbatim>\<open>in\<close> points to;
  the loop ends at the first entry whose id is 0. An array without such an entry is read
  past its end: the result is \<open>None\<close>.
\<close>

fun scan_table :: "headers \<Rightarrow> ossl_dispatch list \<Rightarrow> registry \<Rightarrow> registry option" where
  "scan_table H [] reg = None"
| "scan_table H (e # es) reg =
     (if function_id e \<noteq> 0 then scan_table H es (capture H e reg) else Some reg)"

subsection \<open>The library context and the self-check\<close>

text \<open>
  Modelled from the spec: \<^verbatim>\<open>OPENSSL_CTX_new\<close> and \<^verbatim>\<open>OPENSSL_CTX_free\<close> are not part of the
  file. "Allocate and initialize the Context", where allocation can fail; \<open>alloc\<close> is
  what the allocator answers in this call, \<open>None\<close> for a null pointer. Teardown
  "releases all resources owned by the Context".
\<close>

definition OPENSSL_CTX_new :: "nat option \<Rightarrow> prov_state \<Rightarrow> nat option \<times> prov_state" where
  "OPENSSL_CTX_new alloc s =
     (case alloc of
        None \<Rightarrow> (None, s)
      | Some a \<Rightarrow>
          (Some a, s\<lparr>live_ctx := insert a (live_ctx s), ctx_created := ctx_created s + 1\<rparr>))"

definition OPENSSL_CTX_free :: "nat \<Rightarrow> prov_state \<Rightarrow> prov_state" where
  "OPENSSL_CTX_free a s = s\<lparr>live_ctx := live_ctx s - {a}\<rparr>"

text \<open>
  The EVP functions \<^verbatim>\<open>dummy_evp_call\<close> calls are not part of the file either. What each
  answers is a parameter: the handle returned (\<open>None\<close> for \<^verbatim>\<open>NULL\<close>), the \<^verbatim>\<open>int\<close>
  returned, and for \<^verbatim>\<open>EVP_DigestFinal\<close> also the bytes left in \<^verbatim>\<open>dgst\<close> and the value
  left in \<^verbatim>\<open>dgstlen\<close>.
\<close>

record evp =
  EVP_MD_CTX_new :: "nat option"
  EVP_MD_fetch :: "nat \<Rightarrow> string \<Rightarrow> nat option"
  EVP_DigestInit_ex :: "nat \<Rightarrow> nat \<Rightarrow> int"
  EVP_DigestUpdate :: "nat \<Rightarrow> string \<Rightarrow> nat \<Rightarrow> int"
  EVP_DigestFinal :: "nat \<Rightarrow> int \<times> 8 word list \<times> 32 word"

definition exptd :: "8 word list" where
  "exptd =
     [0x7f, 0x83, 0xb1, 0x65, 0x7f, 0xf1, 0xfc, 0x53, 0xb9, 0x2d, 0xc1, 0x81,
      0x48, 0xa1, 0xd6, 0x5d, 0xfc, 0x2d, 0x4b, 0x1f, 0xa3, 0xd6, 0x77, 0x28,
      0x4a, 0xdd, 0xd2, 0x00, 0x12, 0x6d, 0x90, 0x69]"

text \<open>\<^verbatim>\<open>memcmp\<close>, as far as the caller looks at it: 0 exactly when the first \<open>n\<close> bytes agree.\<close>

definition memcmp :: "8 word list \<Rightarrow> 8 word list \<Rightarrow> nat \<Rightarrow> int" where
  "memcmp xs ys n = (if take n xs = take n ys then 0 else 1)"

text \<open>
  \<^verbatim>\<open>dummy_evp_call\<close>: \<^verbatim>\<open>sizeof(msg) - 1\<close> is the length of the message, \<^verbatim>\<open>sizeof(exptd)\<close>
  the length of the expected digest. The two frees at \<^verbatim>\<open>err:\<close> act on objects of the
  EVP layer only.
\<close>

definition dummy_evp_call :: "evp \<Rightarrow> nat \<Rightarrow> int" where
  "dummy_evp_call E libctx =
     (let ctx = EVP_MD_CTX_new E;
          sha256 = EVP_MD_fetch E libctx ''SHA256'';
          msg = ''Hello World!''
      in case (ctx, sha256) of
           (Some c, Some md) \<Rightarrow>
             if EVP_DigestInit_ex E c md = 0 then 0
             else if EVP_DigestUpdate E c msg (length msg) = 0 then 0
             else (case EVP_DigestFinal E c of
                     (r, dgst, dgstlen) \<Rightarrow>
                       if r = 0 then 0
                       else if unat dgstlen \<noteq> length exptd
                               \<or> memcmp dgst exptd (length exptd) \<noteq> 0 then 0
                       else 1)
         | _ \<Rightarrow> 0)"

subsection \<open>The external entry point\<close>

text \<open>
  \<^verbatim>\<open>OSSL_provider_init\<close>: the result is \<open>None\<close> when the scan reads past the end of the
  incoming array, otherwise the value returned and the state at the return.
\<close>

definition OSSL_provider_init ::
  "headers \<Rightarrow> evp \<Rightarrow> nat option \<Rightarrow> nat \<Rightarrow> ossl_dispatch list \<Rightarrow> prov_state
     \<Rightarrow> (int \<times> prov_state) option" where
  "OSSL_provider_init H E alloc provider in_table s =
     (case scan_table H in_table (registry s) of
        None \<Rightarrow> None
      | Some reg \<Rightarrow>
          (case OPENSSL_CTX_new alloc (s\<lparr>registry := reg\<rparr>) of
             (None, s1) \<Rightarrow> Some (0, s1)
           | (Some ctx, s1) \<Rightarrow>
               let s2 = s1\<lparr>self_checks := self_checks s1 + 1\<rparr> in
               if dummy_evp_call E ctx = 0 then Some (0, OPENSSL_CTX_free ctx s2)
               else Some (1, s2\<lparr>out := Fips_dispatch_table, provctx := Some ctx\<rparr>)))"

subsection \<open>The parameter protocol\<close>

text \<open>
  Modelled from the spec: the parameter names of \<^verbatim>\<open>openssl/core_names.h\<close> are not part
  of the file; the queryable fields are "module display name, version string, build-info
  string", named name, version and buildinfo.
\<close>

definition OSSL_PROV_PARAM_NAME :: string where
  "OSSL_PROV_PARAM_NAME = ''name''"

definition OSSL_PROV_PARAM_VERSION :: string where
  "OSSL_PROV_PARAM_VERSION = ''version''"

definition OSSL_PROV_PARAM_BUILDINFO :: string where
  "OSSL_PROV_PARAM_BUILDINFO = ''buildinfo''"

text \<open>\<^verbatim>\<open>fips_param_types\<close>, up to its terminator: \<^verbatim>\<open>OSSL_ITEM\<close> is a pair of id and name.\<close>

definition fips_param_types :: "headers \<Rightarrow> (nat \<times> string) list" where
  "fips_param_types H =
     [ (OSSL_PARAM_UTF8_PTR H, OSSL_PROV_PARAM_NAME),
       (OSSL_PARAM_UTF8_PTR H, OSSL_PROV_PARAM_VERSION),
       (OSSL_PARAM_UTF8_PTR H, OSSL_PROV_PARAM_BUILDINFO) ]"

definition fips_get_param_types :: "headers \<Rightarrow> nat \<Rightarrow> (nat \<times> string) list" where
  "fips_get_param_types H prov = fips_param_types H"

text \<open>
  Modelled from the spec: \<^verbatim>\<open>OSSL_PARAM\<close>, \<^verbatim>\<open>OSSL_PARAM_locate\<close> and
  \<^verbatim>\<open>OSSL_PARAM_set_utf8_ptr\<close> are not part of the file. A parameter request is "a named
  slot with an expected type, located by name inside a caller-supplied array; filling it
  is an out-parameter write"; "a type mismatch between the request's declared type and
  the parameter's actual type is the one rejectable condition". \<open>data\<close> is the cell the
  slot's pointer leads to, \<open>None\<close> while nothing has been written there. The list is the
  array up to its terminator; \<open>OSSL_PARAM_locate\<close> answers the index of the slot it
  points to, \<open>None\<close> for \<^verbatim>\<open>NULL\<close>.
\<close>

record ossl_param =
  key :: string
  data_type :: nat
  data :: "string option"

fun OSSL_PARAM_locate :: "ossl_param list \<Rightarrow> string \<Rightarrow> nat option" where
  "OSSL_PARAM_locate [] k = None"
| "OSSL_PARAM_locate (p # ps) k =
     (if key p = k then Some 0 else map_option Suc (OSSL_PARAM_locate ps k))"

definition OSSL_PARAM_set_utf8_ptr ::
  "headers \<Rightarrow> ossl_param \<Rightarrow> string \<Rightarrow> int \<times> ossl_param" where
  "OSSL_PARAM_set_utf8_ptr H p val =
     (if data_type p \<noteq> OSSL_PARAM_UTF8_PTR H then (0, p) else (1, p\<lparr>data := Some val\<rparr>))"

text \<open>
  The statement \<^verbatim>\<open>fips_get_params\<close> repeats three times:
  \<^verbatim>\<open>p = OSSL_PARAM_locate(params, k); if (p != NULL && !OSSL_PARAM_set_utf8_ptr(p, val))\<close>.
  The result is the value of the condition and the array after the call.
\<close>

definition locate_and_set ::
  "headers \<Rightarrow> ossl_param list \<Rightarrow> string \<Rightarrow> string \<Rightarrow> bool \<times> ossl_param list" where
  "locate_and_set H params k val =
     (case OSSL_PARAM_locate params k of
        None \<Rightarrow> (False, params)
      | Some i \<Rightarrow>
          (case OSSL_PARAM_set_utf8_ptr H (params ! i) val of
             (r, p') \<Rightarrow> (r = 0, params[i := p'])))"

text \<open>\<^verbatim>\<open>fips_get_params\<close>: the value returned and the array at the return.\<close>

definition fips_get_params ::
  "headers \<Rightarrow> nat \<Rightarrow> ossl_param list \<Rightarrow> int \<times> ossl_param list" where
  "fips_get_params H prov params =
     (case locate_and_set H params OSSL_PROV_PARAM_NAME ''OpenSSL FIPS Provider'' of
        (True, params1) \<Rightarrow> (0, params1)
      | (False, params1) \<Rightarrow>
     (case locate_and_set H params1 OSSL_PROV_PARAM_VERSION (OPENSSL_VERSION_STR H) of
        (True, params2) \<Rightarrow> (0, params2)
      | (False, params2) \<Rightarrow>
     (case locate_and_set H params2 OSSL_PROV_PARAM_BUILDINFO (OPENSSL_FULL_VERSION_STR H) of
        (True, params3) \<Rightarrow> (0, params3)
      | (False, params3) \<Rightarrow> (1, params3))))"

section \<open>Notions used to state the properties\<close>

subsection \<open>Known capability ids and capture events\<close>

text \<open>
  The variable the switch assigns for a function id: the case labels in the order of the
  source, \<open>None\<close> for the default branch.
\<close>

definition slot_of :: "headers \<Rightarrow> int \<Rightarrow> core_fn option" where
  "slot_of H i =
     (if i = OSSL_FUNC H OSSL_FUNC_CORE_GET_PARAM_TYPES then Some c_get_param_types
      else if i = OSSL_FUNC H OSSL_FUNC_CORE_GET_PARAMS then Some c_get_params
      else if i = OSSL_FUNC H OSSL_FUNC_CORE_PUT_ERROR then Some c_put_error
      else if i = OSSL_FUNC H OSSL_FUNC_CORE_ADD_ERROR_VDATA then Some c_add_error_vdata
      else if i = OSSL_FUNC H OSSL_FUNC_CORE_GET_CRYPTO_MALLOC then Some c_CRYPTO_malloc
      else if i = OSSL_FUNC H OSSL_FUNC_CORE_GET_CRYPTO_ZALLOC then Some c_CRYPTO_zalloc
      else if i = OSSL_FUNC H OSSL_FUNC_CORE_GET_CRYPTO_MEMDUP then Some c_CRYPTO_memdup
      else if i = OSSL_FUNC H OSSL_FUNC_CORE_GET_CRYPTO_STRDUP then Some c_CRYPTO_strdup
      else if i = OSSL_FUNC H OSSL_FUNC_CORE_GET_CRYPTO_STRNDUP then Some c_CRYPTO_strndup
      else if i = OSSL_FUNC H OSSL_FUNC_CORE_GET_CRYPTO_FREE then Some c_CRYPTO_free
      else if i = OSSL_FUNC H OSSL_FUNC_CORE_GET_CRYPTO_CLEAR_FREE then Some c_CRYPTO_clear_free
      else if i = OSSL_FUNC H OSSL_FUNC_CORE_GET_CRYPTO_REALLOC then Some c_CRYPTO_realloc
      else if i = OSSL_FUNC H OSSL_FUNC_CORE_GET_CRYPTO_CLEAR_REALLOC then
        Some c_CRYPTO_clear_realloc
      else if i = OSSL_FUNC H OSSL_FUNC_CORE_GET_CRYPTO_SECURE_MALLOC then
        Some c_CRYPTO_secure_malloc
      else if i = OSSL_FUNC H OSSL_FUNC_CORE_GET_CRYPTO_SECURE_ZALLOC then
        Some c_CRYPTO_secure_zalloc
      else if i = OSSL_FUNC H OSSL_FUNC_CORE_GET_CRYPTO_SECURE_FREE then
        Some c_CRYPTO_secure_free
      else if i = OSSL_FUNC H OSSL_FUNC_CORE_GET_CRYPTO_SECURE_CLEAR_FREE then
        Some c_CRYPTO_secure_clear_free
      else if i = OSSL_FUNC H OSSL_FUNC_CORE_GET_CRYPTO_SECURE_MALLOC_INITIALIZED then
        Some c_CRYPTO_secure_malloc_initialized
      else None)"

text \<open>The case label that assigns a variable; \<^verbatim>\<open>c_OPENSSL_cleanse\<close> has none.\<close>

fun label_of :: "core_fn \<Rightarrow> core_number option" where
  "label_of c_get_param_types = Some OSSL_FUNC_CORE_GET_PARAM_TYPES"
| "label_of c_get_params = Some OSSL_FUNC_CORE_GET_PARAMS"
| "label_of c_put_error = Some OSSL_FUNC_CORE_PUT_ERROR"
| "label_of c_add_error_vdata = Some OSSL_FUNC_CORE_ADD_ERROR_VDATA"
| "label_of c_CRYPTO_malloc = Some OSSL_FUNC_CORE_GET_CRYPTO_MALLOC"
| "label_of c_CRYPTO_zalloc = Some OSSL_FUNC_CORE_GET_CRYPTO_ZALLOC"
| "label_of c_CRYPTO_memdup = Some OSSL_FUNC_CORE_GET_CRYPTO_MEMDUP"
| "label_of c_CRYPTO_strdup = Some OSSL_FUNC_CORE_GET_CRYPTO_STRDUP"
| "label_of c_CRYPTO_strndup = Some OSSL_FUNC_CORE_GET_CRYPTO_STRNDUP"
| "label_of c_CRYPTO_free = Some OSSL_FUNC_CORE_GET_CRYPTO_FREE"
| "label_of c_CRYPTO_clear_free = Some OSSL_FUNC_CORE_GET_CRYPTO_CLEAR_FREE"
| "label_of c_CRYPTO_realloc = Some OSSL_FUNC_CORE_GET_CRYPTO_REALLOC"
| "label_of c_CRYPTO_clear_realloc = Some OSSL_FUNC_CORE_GET_CRYPTO_CLEAR_REALLOC"
| "label_of c_CRYPTO_secure_malloc = Some OSSL_FUNC_CORE_GET_CRYPTO_SECURE_MALLOC"
| "label_of c_CRYPTO_secure_zalloc = Some OSSL_FUNC_CORE_GET_CRYPTO_SECURE_ZALLOC"
| "label_of c_CRYPTO_secure_free = Some OSSL_FUNC_CORE_GET_CRYPTO_SECURE_FREE"
| "label_of c_CRYPTO_secure_clear_free = Some OSSL_FUNC_CORE_GET_CRYPTO_SECURE_CLEAR_FREE"
| "label_of c_CRYPTO_secure_malloc_initialized =
     Some OSSL_FUNC_CORE_GET_CRYPTO_SECURE_MALLOC_INITIALIZED"
| "label_of c_OPENSSL_cleanse = None"

definition known_id :: "headers \<Rightarrow> int \<Rightarrow> bool" where
  "known_id H i = (slot_of H i \<noteq> None)"

text \<open>
  The capture events of a scan over the entries \<open>es\<close>: one pair of variable and pointer
  for each entry with a known id, in the order of the table; \<open>assign\<close> performs one.
\<close>

definition captures :: "headers \<Rightarrow> ossl_dispatch list \<Rightarrow> (core_fn \<times> funptr) list" where
  "captures H es =
     List.map_filter (\<lambda>e. map_option (\<lambda>v. (v, func e)) (slot_of H (function_id e))) es"

fun assign :: "core_fn \<times> funptr \<Rightarrow> registry \<Rightarrow> registry" where
  "assign (v, f) reg = reg(v := f)"

subsection \<open>Type mismatches and the steps of the parameter fill\<close>

text \<open>
  The slot \<open>OSSL_PARAM_locate\<close> finds for the name \<open>k\<close> exists and its declared type is
  not the type of the module's parameters.
\<close>

definition mismatch :: "headers \<Rightarrow> ossl_param list \<Rightarrow> string \<Rightarrow> bool" where
  "mismatch H ps k =
     (case OSSL_PARAM_locate ps k of
        None \<Rightarrow> False
      | Some i \<Rightarrow> data_type (ps ! i) \<noteq> OSSL_PARAM_UTF8_PTR H)"

text \<open>
  The array after the first, the second and the third located store of
  \<^verbatim>\<open>fips_get_params\<close>.
\<close>

definition after_name :: "headers \<Rightarrow> ossl_param list \<Rightarrow> ossl_param list" where
  "after_name H ps = snd (locate_and_set H ps OSSL_PROV_PARAM_NAME ''OpenSSL FIPS Provider'')"

definition after_version :: "headers \<Rightarrow> ossl_param list \<Rightarrow> ossl_param list" where
  "after_version H ps =
     snd (locate_and_set H (after_name H ps) OSSL_PROV_PARAM_VERSION (OPENSSL_VERSION_STR H))"

definition after_buildinfo :: "headers \<Rightarrow> ossl_param list \<Rightarrow> ossl_param list" where
  "after_buildinfo H ps =
     snd (locate_and_set H (after_version H ps) OSSL_PROV_PARAM_BUILDINFO
            (OPENSSL_FULL_VERSION_STR H))"

subsection \<open>Header values and inputs used for the concrete evaluations\<close>

fun sample_func :: "core_number \<Rightarrow> int" where
  "sample_func OSSL_FUNC_CORE_GET_PARAM_TYPES = 1"
| "sample_func OSSL_FUNC_CORE_GET_PARAMS = 2"
| "sample_func OSSL_FUNC_CORE_PUT_ERROR = 3"
| "sample_func OSSL_FUNC_CORE_ADD_ERROR_VDATA = 4"
| "sample_func OSSL_FUNC_CORE_GET_CRYPTO_MALLOC = 10"
| "sample_func OSSL_FUNC_CORE_GET_CRYPTO_ZALLOC = 11"
| "sample_func OSSL_FUNC_CORE_GET_CRYPTO_MEMDUP = 12"
| "sample_func OSSL_FUNC_CORE_GET_CRYPTO_STRDUP = 13"
| "sample_func OSSL_FUNC_CORE_GET_CRYPTO_STRNDUP = 14"
| "sample_func OSSL_FUNC_CORE_GET_CRYPTO_FREE = 15"
| "sample_func OSSL_FUNC_CORE_GET_CRYPTO_CLEAR_FREE = 16"
| "sample_func OSSL_FUNC_CORE_GET_CRYPTO_REALLOC = 17"
| "sample_func OSSL_FUNC_CORE_GET_CRYPTO_CLEAR_REALLOC = 18"
| "sample_func OSSL_FUNC_CORE_GET_CRYPTO_SECURE_MALLOC = 19"
| "sample_func OSSL_FUNC_CORE_GET_CRYPTO_SECURE_ZALLOC = 20"
| "sample_func OSSL_FUNC_CORE_GET_CRYPTO_SECURE_FREE = 21"
| "sample_func OSSL_FUNC_CORE_GET_CRYPTO_SECURE_CLEAR_FREE = 22"
| "sample_func OSSL_FUNC_CORE_GET_CRYPTO_SECURE_MALLOC_INITIALIZED = 23"
| "sample_func OSSL_FUNC_PROVIDER_TEARDOWN = 1024"
| "sample_func OSSL_FUNC_PROVIDER_GET_PARAM_TYPES = 1025"
| "sample_func OSSL_FUNC_PROVIDER_GET_PARAMS = 1026"
| "sample_func OSSL_FUNC_PROVIDER_QUERY_OPERATION = 1027"

definition sample_headers :: headers where
  "sample_headers =
     \<lparr>OSSL_FUNC = sample_func, OSSL_OP_DIGEST = 1, OSSL_PARAM_UTF8_PTR = 6,
      OPENSSL_VERSION_STR = ''3.0.0'', OPENSSL_FULL_VERSION_STR = ''3.0.0-dev''\<rparr>"

text \<open>
  The state of a freshly loaded module: every static pointer null, no context; the
  caller's slots hold some other table address and a null handle.
\<close>

definition state0 :: prov_state where
  "state0 =
     \<lparr>registry = (\<lambda>v. NULL), live_ctx = {}, ctx_created = 0, self_checks = 0,
      out = Other_table 0, provctx = None\<rparr>"

text \<open>
  An EVP layer whose SHA256 answers the expected digest, and one whose digest is
  wrong in every byte.
\<close>

definition evp_good :: evp where
  "evp_good =
     \<lparr>EVP_MD_CTX_new = Some 1, EVP_MD_fetch = (\<lambda>libctx alg. Some 2),
      EVP_DigestInit_ex = (\<lambda>c md. 1), EVP_DigestUpdate = (\<lambda>c d n. 1),
      EVP_DigestFinal = (\<lambda>c. (1, exptd, 32))\<rparr>"

definition evp_wrong_digest :: evp where
  "evp_wrong_digest = evp_good\<lparr>EVP_DigestFinal := (\<lambda>c. (1, replicate 32 0, 32))\<rparr>"

text \<open>A core table: two known ids around an unknown one, and the terminator.\<close>

definition entries0 :: "ossl_dispatch list" where
  "entries0 =
     [ \<lparr>function_id = 2, func = Core_function 100\<rparr>,
       \<lparr>function_id = 999, func = Core_function 7\<rparr>,
       \<lparr>function_id = 10, func = Core_function 200\<rparr> ]"

definition terminator0 :: ossl_dispatch where
  "terminator0 = \<lparr>function_id = 0, func = NULL\<rparr>"

section \<open>Properties\<close>

subsection \<open>The algorithm query\<close>

text \<open>
  C8. For every operation category other than the registered digest category, the
  query returns the absent list (\<^verbatim>\<open>NULL\<close>); the function has no error outcome, the only
  other thing it reports is the cache flag, which is 0 as for the registered category.
\<close>

theorem fips_query_unregistered:
  assumes "operation_id \<noteq> OSSL_OP_DIGEST H"
  shows "fips_query H prov operation_id no_cache = (None, 0)"
  using assms by (simp add: fips_query_def)

theorem fips_query_unregistered_witness:
  "(2::int) \<noteq> OSSL_OP_DIGEST sample_headers \<and> fips_query sample_headers 0 2 1 = (None, 0)"
proof -
  have h: "(2::int) \<noteq> OSSL_OP_DIGEST sample_headers"
    by (simp add: sample_headers_def)
  show ?thesis
    using h fips_query_unregistered [OF h, of 0 1] by simp
qed

text \<open>
  C9. For every query, whatever the operation category and whatever the flag held
  before, the no-cache flag is 0 at the return (the result may be cached), and the list
  returned for the digest category is the constant table \<open>fips_digests\<close>.
\<close>

theorem fips_query_cacheable:
  "snd (fips_query H prov operation_id no_cache) = 0 \<and>
   fst (fips_query H prov (OSSL_OP_DIGEST H) no_cache) = Some fips_digests"
  by (simp add: fips_query_def)

subsection \<open>The internal entry point\<close>

text \<open>
  C10. For every provider handle, incoming table and state, the internal entry point
  returns 1, sets the outgoing table slot to the internal dispatch table, and leaves the
  context slot, the registry of captured pointers, the live contexts and the two event
  counts as they were. The incoming table is a read-only argument: nothing of it is
  part of the result, and it is not looked at (the result is the same for every table
  and every handle).
\<close>

theorem fips_intern_provider_init_frame:
  "fst (fips_intern_provider_init provider in_table s) = 1 \<and>
   out (snd (fips_intern_provider_init provider in_table s)) = Intern_dispatch_table \<and>
   provctx (snd (fips_intern_provider_init provider in_table s)) = provctx s \<and>
   registry (snd (fips_intern_provider_init provider in_table s)) = registry s \<and>
   live_ctx (snd (fips_intern_provider_init provider in_table s)) = live_ctx s \<and>
   ctx_created (snd (fips_intern_provider_init provider in_table s)) = ctx_created s \<and>
   self_checks (snd (fips_intern_provider_init provider in_table s)) = self_checks s \<and>
   snd (fips_intern_provider_init provider in_table s) = s\<lparr>out := Intern_dispatch_table\<rparr> \<and>
   fips_intern_provider_init provider in_table s = fips_intern_provider_init provider' in_table' s"
  by (simp add: fips_intern_provider_init_def)

subsection \<open>The table scan\<close>

lemma capture_slot_of:
  "capture H e reg =
     (case slot_of H (function_id e) of None \<Rightarrow> reg | Some v \<Rightarrow> reg(v := func e))"
  by (simp add: capture_def OSSL_get_def slot_of_def)

lemma slot_of_label:
  "slot_of H i = Some v \<Longrightarrow> map_option (OSSL_FUNC H) (label_of v) = Some i"
  by (simp add: slot_of_def split: if_splits)

lemma slot_of_inj: "slot_of H i = Some v \<Longrightarrow> slot_of H j = Some v \<Longrightarrow> i = j"
  using slot_of_label [of H i v] slot_of_label [of H j v] by simp

lemma scan_table_terminated:
  "0 \<notin> set (map function_id es) \<Longrightarrow> function_id t = 0 \<Longrightarrow>
   scan_table H (es @ t # rest) reg = Some (fold (capture H) es reg)"
  by (induction es arbitrary: reg) auto

lemma scan_table_takeWhile:
  "0 \<in> set (map function_id tbl) \<Longrightarrow>
   scan_table H tbl reg
     = Some (fold (capture H) (takeWhile (\<lambda>e. function_id e \<noteq> 0) tbl) reg)"
  by (induction tbl arbitrary: reg) auto

lemma scan_table_unterminated:
  "0 \<notin> set (map function_id tbl) \<Longrightarrow> scan_table H tbl reg = None"
  by (induction tbl arbitrary: reg) auto

lemma captures_Nil: "captures H [] = []"
  by (simp add: captures_def)

lemma captures_Cons:
  "captures H (e # es) =
     (case slot_of H (function_id e) of
        None \<Rightarrow> captures H es
      | Some v \<Rightarrow> (v, func e) # captures H es)"
  by (simp add: captures_def split: option.split)

lemma fold_capture_captures: "fold (capture H) es reg = fold assign (captures H es) reg"
  by (induction es arbitrary: reg)
     (simp_all add: captures_Nil captures_Cons capture_slot_of split: option.split)

lemma captures_pointers:
  "map snd (captures H es) = map func (filter (\<lambda>e. known_id H (function_id e)) es)"
  by (induction es)
     (simp_all add: captures_Nil captures_Cons known_id_def split: option.split)

lemma captures_filter:
  "captures H (filter (\<lambda>e. known_id H (function_id e)) es) = captures H es"
  by (induction es)
     (auto simp add: captures_Nil captures_Cons known_id_def split: option.split)

lemma captures_set:
  "(v, f) \<in> set (captures H es)
     \<longleftrightarrow> (\<exists>e\<in>set es. slot_of H (function_id e) = Some v \<and> func e = f)"
  by (induction es) (auto simp add: captures_Nil captures_Cons split: option.split)

lemma fold_assign_other: "v \<notin> fst ` set cs \<Longrightarrow> fold assign cs reg v = reg v"
  by (induction cs arbitrary: reg) auto

lemma fold_assign_distinct:
  "distinct (map fst cs) \<Longrightarrow> (v, f) \<in> set cs \<Longrightarrow> fold assign cs reg v = f"
proof (induction cs arbitrary: reg)
  case Nil
  then show ?case by simp
next
  case (Cons c cs)
  show ?case
  proof (cases "c = (v, f)")
    case True
    with Cons.prems have "v \<notin> fst ` set cs" by auto
    with True show ?thesis by (simp add: fold_assign_other)
  next
    case False
    with Cons show ?thesis by auto
  qed
qed

lemma captures_distinct:
  "distinct (map function_id es) \<Longrightarrow> distinct (map fst (captures H es))"
proof (induction es)
  case Nil
  then show ?case by (simp add: captures_Nil)
next
  case (Cons e es)
  show ?case
  proof (cases "slot_of H (function_id e)")
    case None
    with Cons show ?thesis by (simp add: captures_Cons)
  next
    case (Some v)
    have "v \<notin> fst ` set (captures H es)"
    proof
      assume "v \<in> fst ` set (captures H es)"
      then obtain f where "(v, f) \<in> set (captures H es)" by force
      then obtain e' where e': "e' \<in> set es" "slot_of H (function_id e') = Some v"
        by (auto simp: captures_set)
      with Some have "function_id e' = function_id e" by (blast intro: slot_of_inj)
      moreover from e'(1) have "function_id e' \<in> set (map function_id es)" by simp
      ultimately show False using Cons.prems by simp
    qed
    with Cons Some show ?thesis by (simp add: captures_Cons)
  qed
qed

text \<open>
  C6. Let the incoming table consist of entries \<open>es\<close> with non-zero ids, the terminator
  \<open>t\<close>, and whatever follows it. The scan returns (it never fails or aborts) and does
  exactly one assignment for each entry of \<open>es\<close> with a known id, in table order, and
  nothing for the others: the pointers captured are those of the known-id entries, their
  number is the number of known-id entries, and the table with the unknown-id entries
  removed gives the same registry. When the ids of the table are distinct (the invariant
  of a function table), each known-id entry's pointer is in its variable after the scan;
  a variable no entry names keeps its value.
\<close>

theorem scan_table_captures_known:
  assumes "0 \<notin> set (map function_id es)" and "function_id t = 0"
  shows "scan_table H (es @ t # rest) reg = Some (fold assign (captures H es) reg) \<and>
         map snd (captures H es) = map func (filter (\<lambda>e. known_id H (function_id e)) es) \<and>
         length (captures H es) = length (filter (\<lambda>e. known_id H (function_id e)) es) \<and>
         scan_table H (filter (\<lambda>e. known_id H (function_id e)) es @ [t]) reg
           = scan_table H (es @ t # rest) reg \<and>
         (distinct (map function_id es) \<longrightarrow>
            (\<forall>e \<in> set es. \<forall>v. slot_of H (function_id e) = Some v
                \<longrightarrow> fold assign (captures H es) reg v = func e)) \<and>
         (\<forall>v. v \<notin> fst ` set (captures H es)
                \<longrightarrow> fold assign (captures H es) reg v = reg v)"
proof -
  let ?known = "filter (\<lambda>e. known_id H (function_id e)) es"
  have scan: "scan_table H (es @ t # rest) reg = Some (fold assign (captures H es) reg)"
    using assms by (simp add: scan_table_terminated fold_capture_captures)
  have ptrs: "map snd (captures H es) = map func ?known"
    by (rule captures_pointers)
  have len: "length (captures H es) = length ?known"
    using arg_cong [OF ptrs, of length] by simp
  have "0 \<notin> set (map function_id ?known)"
    using assms(1) by auto
  then have "scan_table H (?known @ t # []) reg = Some (fold assign (captures H ?known) reg)"
    using assms(2) scan_table_terminated [of ?known t H "[]" reg]
    by (simp add: fold_capture_captures)
  then have skip: "scan_table H (?known @ [t]) reg = scan_table H (es @ t # rest) reg"
    using scan by (simp add: captures_filter)
  have each: "distinct (map function_id es) \<longrightarrow>
            (\<forall>e \<in> set es. \<forall>v. slot_of H (function_id e) = Some v
                \<longrightarrow> fold assign (captures H es) reg v = func e)"
    by (auto intro!: fold_assign_distinct captures_distinct simp: captures_set)
  have other: "\<forall>v. v \<notin> fst ` set (captures H es)
                \<longrightarrow> fold assign (captures H es) reg v = reg v"
    by (simp add: fold_assign_other)
  from scan ptrs len skip each other show ?thesis by blast
qed

lemma known_entries0:
  "filter (\<lambda>e. known_id sample_headers (function_id e)) entries0
     = [\<lparr>function_id = 2, func = Core_function 100\<rparr>,
        \<lparr>function_id = 10, func = Core_function 200\<rparr>]"
  by (simp add: entries0_def known_id_def slot_of_def sample_headers_def)

lemma captures_entries0:
  "captures sample_headers entries0
     = [(c_get_params, Core_function 100), (c_CRYPTO_malloc, Core_function 200)]"
  by (simp add: entries0_def captures_Cons captures_Nil slot_of_def sample_headers_def)

theorem scan_table_captures_known_witness:
  "0 \<notin> set (map function_id entries0) \<and> function_id terminator0 = 0 \<and>
   distinct (map function_id entries0) \<and>
   length (filter (\<lambda>e. known_id sample_headers (function_id e)) entries0) = 2 \<and>
   scan_table sample_headers (entries0 @ terminator0 # []) (registry state0)
     = Some (fold assign (captures sample_headers entries0) (registry state0)) \<and>
   map snd (captures sample_headers entries0) = [Core_function 100, Core_function 200] \<and>
   length (captures sample_headers entries0) = 2 \<and>
   fold assign (captures sample_headers entries0) (registry state0) c_get_params
     = Core_function 100 \<and>
   fold assign (captures sample_headers entries0) (registry state0) c_CRYPTO_malloc
     = Core_function 200 \<and>
   fold assign (captures sample_headers entries0) (registry state0) c_put_error = NULL"
proof -
  have h1: "0 \<notin> set (map function_id entries0)"
    by (simp add: entries0_def)
  have h2: "function_id terminator0 = 0"
    by (simp add: terminator0_def)
  have d: "distinct (map function_id entries0)"
    by (simp add: entries0_def)
  show ?thesis
    using h1 h2 d
      scan_table_captures_known [OF h1 h2, of sample_headers "[]" "registry state0"]
    by (simp add: known_entries0 captures_entries0 state0_def)
qed

subsection \<open>The external entry point\<close>

lemma dummy_evp_call_good: "dummy_evp_call evp_good ctx = 1"
  by (simp add: dummy_evp_call_def evp_good_def memcmp_def exptd_def)

lemma dummy_evp_call_wrong_digest: "dummy_evp_call evp_wrong_digest ctx = 0"
  by (simp add: dummy_evp_call_def evp_good_def evp_wrong_digest_def memcmp_def exptd_def)

lemma terminated0: "0 \<in> set (map function_id (entries0 @ [terminator0]))"
  by (simp add: terminator0_def)

lemma scan_table0:
  "scan_table sample_headers (entries0 @ [terminator0]) (\<lambda>v. NULL)
     = Some ((\<lambda>v. NULL)(c_get_params := Core_function 100,
                         c_CRYPTO_malloc := Core_function 200))"
  by (simp add: entries0_def terminator0_def sample_headers_def capture_def OSSL_get_def)

text \<open>
  C1. For every external negotiation over a terminated table in which the context is
  allocated and the self-check then fails, the entry point returns 0, the context it
  allocated is released again (the live contexts are those of before, one creation having
  been counted), and the outgoing table slot and the context-handle slot hold what they
  held before the call.
\<close>

theorem OSSL_provider_init_self_check_gate:
  assumes "0 \<in> set (map function_id in_table)"
    and "alloc = Some ctx" and "ctx \<notin> live_ctx s"
    and "dummy_evp_call E ctx = 0"
  shows "\<exists>s'. OSSL_provider_init H E alloc provider in_table s = Some (0, s') \<and>
              ctx \<notin> live_ctx s' \<and> live_ctx s' = live_ctx s \<and>
              ctx_created s' = ctx_created s + 1 \<and> self_checks s' = self_checks s + 1 \<and>
              out s' = out s \<and> provctx s' = provctx s"
  using assms scan_table_takeWhile [of in_table H "registry s"]
  by (simp add: OSSL_provider_init_def OPENSSL_CTX_new_def OPENSSL_CTX_free_def)

theorem OSSL_provider_init_self_check_gate_witness:
  "0 \<in> set (map function_id (entries0 @ [terminator0])) \<and> 5 \<notin> live_ctx state0 \<and>
   dummy_evp_call evp_wrong_digest 5 = 0 \<and>
   OSSL_provider_init sample_headers evp_wrong_digest (Some 5) 0 (entries0 @ [terminator0]) state0
     = Some (0, state0\<lparr>registry := (\<lambda>v. NULL)(c_get_params := Core_function 100,
                                                c_CRYPTO_malloc := Core_function 200),
                        ctx_created := 1, self_checks := 1\<rparr>) \<and>
   out state0 = Other_table 0 \<and> provctx state0 = None \<and> live_ctx state0 = {}"
proof -
  have h3: "5 \<notin> live_ctx state0"
    by (simp add: state0_def)
  show ?thesis
    using terminated0 h3 dummy_evp_call_wrong_digest [of 5]
      OSSL_provider_init_self_check_gate [OF terminated0 refl h3 dummy_evp_call_wrong_digest,
        of sample_headers 0]
    by (auto simp add: OSSL_provider_init_def scan_table0 OPENSSL_CTX_new_def
          OPENSSL_CTX_free_def state0_def)
qed

text \<open>
  C2, as the code has it. The claim says that a negotiation whose allocation fails is
  all-or-nothing. The table scan comes before the allocation and nothing undoes it:
  below, the allocation fails, the call returns 0, and the state at the return is not
  the state of before, \<^verbatim>\<open>c_CRYPTO_malloc\<close> holding the core's pointer.
\<close>

theorem OSSL_provider_init_alloc_failure_registry_counterexample:
  "OSSL_provider_init sample_headers evp_good None 0
      [\<lparr>function_id = 10, func = Core_function 200\<rparr>, \<lparr>function_id = 0, func = NULL\<rparr>]
      state0
     = Some (0, state0\<lparr>registry := (registry state0)(c_CRYPTO_malloc := Core_function 200)\<rparr>) \<and>
   state0\<lparr>registry := (registry state0)(c_CRYPTO_malloc := Core_function 200)\<rparr> \<noteq> state0"
proof -
  have "registry (state0\<lparr>registry := (registry state0)(c_CRYPTO_malloc := Core_function 200)\<rparr>)
          c_CRYPTO_malloc \<noteq> registry state0 c_CRYPTO_malloc"
    by (simp add: state0_def)
  then have "state0\<lparr>registry := (registry state0)(c_CRYPTO_malloc := Core_function 200)\<rparr>
               \<noteq> state0"
    by metis
  then show ?thesis
    by (simp add: OSSL_provider_init_def OPENSSL_CTX_new_def state0_def sample_headers_def
          capture_def OSSL_get_def)
qed

text \<open>
  C2, amended. For every external negotiation over a terminated table in which the
  allocation of the context fails, the entry point returns 0; no context is created or
  live beyond those of before, the self-check is not run, and the outgoing table slot and
  the context-handle slot hold what they held before the call. The negotiation is not
  all-or-nothing: the static pointers are the ones the table scan produced, every
  capture being kept; nothing else of the state differs from before.
\<close>

theorem OSSL_provider_init_alloc_failure:
  assumes "0 \<in> set (map function_id in_table)" and "alloc = None"
  shows "\<exists>s'. OSSL_provider_init H E alloc provider in_table s = Some (0, s') \<and>
              live_ctx s' = live_ctx s \<and> ctx_created s' = ctx_created s \<and>
              self_checks s' = self_checks s \<and>
              out s' = out s \<and> provctx s' = provctx s \<and>
              s' = s\<lparr>registry := registry s'\<rparr> \<and>
              scan_table H in_table (registry s) = Some (registry s') \<and>
              registry s' = fold assign
                 (captures H (takeWhile (\<lambda>e. function_id e \<noteq> 0) in_table)) (registry s)"
  using assms scan_table_takeWhile [of in_table H "registry s"]
  by (simp add: OSSL_provider_init_def OPENSSL_CTX_new_def fold_capture_captures)

theorem OSSL_provider_init_alloc_failure_witness:
  "0 \<in> set (map function_id (entries0 @ [terminator0])) \<and>
   OSSL_provider_init sample_headers evp_good None 0 (entries0 @ [terminator0]) state0
     = Some (0, state0\<lparr>registry := (\<lambda>v. NULL)(c_get_params := Core_function 100,
                                                c_CRYPTO_malloc := Core_function 200)\<rparr>) \<and>
   scan_table sample_headers (entries0 @ [terminator0]) (registry state0)
     = Some ((\<lambda>v. NULL)(c_get_params := Core_function 100,
                         c_CRYPTO_malloc := Core_function 200)) \<and>
   out state0 = Other_table 0 \<and> provctx state0 = None \<and> live_ctx state0 = {}"
  using terminated0 scan_table0
    OSSL_provider_init_alloc_failure [OF terminated0 refl, of sample_headers evp_good 0 state0]
  by (auto simp add: OSSL_provider_init_def OPENSSL_CTX_new_def state0_def)

text \<open>
  C4, as the code has it. The claim says that an aborted negotiation leaves the static
  pointers as they were before the scan. The entry point has no step that restores them:
  below, the allocation fails, the call returns 0, and \<^verbatim>\<open>c_get_params\<close>, null before the
  call, holds the core's pointer after it.
\<close>

theorem OSSL_provider_init_abort_registry_counterexample:
  "OSSL_provider_init sample_headers evp_good None 0
      [\<lparr>function_id = 2, func = Core_function 100\<rparr>, \<lparr>function_id = 0, func = NULL\<rparr>] state0
     = Some (0, state0\<lparr>registry := (registry state0)(c_get_params := Core_function 100)\<rparr>) \<and>
   registry state0 c_get_params = NULL \<and>
   registry (state0\<lparr>registry := (registry state0)(c_get_params := Core_function 100)\<rparr>)
      c_get_params = Core_function 100"
  by (simp add: OSSL_provider_init_def OPENSSL_CTX_new_def state0_def sample_headers_def
        capture_def OSSL_get_def)

text \<open>
  C4, amended. For every external negotiation over a terminated table that aborts (the
  allocation fails, or the self-check fails), the call returns 0 and the static
  pointers at the return are the ones the table scan produced: every pointer captured
  from an entry with a known id before the terminator is kept, none is discarded.
\<close>

theorem OSSL_provider_init_abort_keeps_captures:
  assumes "0 \<in> set (map function_id in_table)"
    and "alloc = None \<or> (\<exists>ctx. alloc = Some ctx \<and> dummy_evp_call E ctx = 0)"
  shows "\<exists>s'. OSSL_provider_init H E alloc provider in_table s = Some (0, s') \<and>
              scan_table H in_table (registry s) = Some (registry s') \<and>
              registry s' = fold assign
                 (captures H (takeWhile (\<lambda>e. function_id e \<noteq> 0) in_table)) (registry s)"
proof -
  let ?reg = "fold (capture H) (takeWhile (\<lambda>e. function_id e \<noteq> 0) in_table) (registry s)"
  have scan: "scan_table H in_table (registry s) = Some ?reg"
    using assms(1) by (rule scan_table_takeWhile)
  from assms(2) show ?thesis
  proof
    assume "alloc = None"
    with scan show ?thesis
      by (simp add: OSSL_provider_init_def OPENSSL_CTX_new_def fold_capture_captures)
  next
    assume "\<exists>ctx. alloc = Some ctx \<and> dummy_evp_call E ctx = 0"
    with scan show ?thesis
      by (auto simp: OSSL_provider_init_def OPENSSL_CTX_new_def OPENSSL_CTX_free_def
            fold_capture_captures)
  qed
qed

lemma init0_self_check_fails:
  "OSSL_provider_init sample_headers evp_wrong_digest (Some 5) 0 (entries0 @ [terminator0]) state0
     = Some (0, state0\<lparr>registry := (\<lambda>v. NULL)(c_get_params := Core_function 100,
                                                c_CRYPTO_malloc := Core_function 200),
                        ctx_created := 1, self_checks := 1\<rparr>)"
  by (simp add: OSSL_provider_init_def scan_table0 OPENSSL_CTX_new_def OPENSSL_CTX_free_def
        state0_def dummy_evp_call_wrong_digest)

theorem OSSL_provider_init_abort_keeps_captures_witness:
  "0 \<in> set (map function_id (entries0 @ [terminator0])) \<and>
   dummy_evp_call evp_wrong_digest 5 = 0 \<and>
   OSSL_provider_init sample_headers evp_wrong_digest (Some 5) 0 (entries0 @ [terminator0]) state0
     = Some (0, state0\<lparr>registry := (\<lambda>v. NULL)(c_get_params := Core_function 100,
                                                c_CRYPTO_malloc := Core_function 200),
                        ctx_created := 1, self_checks := 1\<rparr>) \<and>
   scan_table sample_headers (entries0 @ [terminator0]) (registry state0)
     = Some ((\<lambda>v. NULL)(c_get_params := Core_function 100,
                         c_CRYPTO_malloc := Core_function 200)) \<and>
   registry state0 c_get_params = NULL"
proof -
  have h2: "Some 5 = None \<or> (\<exists>ctx. Some 5 = Some ctx \<and> dummy_evp_call evp_wrong_digest ctx = 0)"
    by (simp add: dummy_evp_call_wrong_digest)
  show ?thesis
    using terminated0 init0_self_check_fails dummy_evp_call_wrong_digest [of 5]
      OSSL_provider_init_abort_keeps_captures [OF terminated0 h2, of sample_headers 0 state0]
    by (simp add: state0_def)
qed

lemma init0_succeeds:
  "OSSL_provider_init sample_headers evp_good (Some 5) 0 (entries0 @ [terminator0]) state0
     = Some (1, state0\<lparr>registry := (\<lambda>v. NULL)(c_get_params := Core_function 100,
                                                c_CRYPTO_malloc := Core_function 200),
                        live_ctx := {5}, ctx_created := 1, self_checks := 1,
                        out := Fips_dispatch_table, provctx := Some 5\<rparr>)"
  by (simp add: OSSL_provider_init_def scan_table0 OPENSSL_CTX_new_def state0_def
        dummy_evp_call_good)

text \<open>
  C5. Let an external negotiation have succeeded, leaving the state \<open>s1\<close>: it has
  created exactly one context and run the self-check once, and the context-handle slot
  holds that context. Every call of the internal entry point in \<open>s1\<close>, whatever handle
  and table it is given, returns 1 and the module's internal dispatch table (the entry
  for the algorithm query and the terminator); it creates no context and runs no
  self-check, and the context slot and the live contexts stay as they are.
\<close>

theorem intern_init_after_external_init:
  assumes "OSSL_provider_init H E alloc provider in_table s = Some (1, s1)"
  shows "\<exists>ctx. alloc = Some ctx \<and> provctx s1 = Some ctx \<and> ctx \<in> live_ctx s1 \<and>
           ctx_created s1 = ctx_created s + 1 \<and> self_checks s1 = self_checks s + 1 \<and>
           fst (fips_intern_provider_init provider' in_table' s1) = 1 \<and>
           out (snd (fips_intern_provider_init provider' in_table' s1))
             = Intern_dispatch_table \<and>
           static_table H Intern_dispatch_table
             = Some [\<lparr>function_id = OSSL_FUNC H OSSL_FUNC_PROVIDER_QUERY_OPERATION,
                       func = Fn_fips_query\<rparr>,
                     \<lparr>function_id = 0, func = NULL\<rparr>] \<and>
           provctx (snd (fips_intern_provider_init provider' in_table' s1)) = Some ctx \<and>
           live_ctx (snd (fips_intern_provider_init provider' in_table' s1)) = live_ctx s1 \<and>
           ctx_created (snd (fips_intern_provider_init provider' in_table' s1))
             = ctx_created s1 \<and>
           self_checks (snd (fips_intern_provider_init provider' in_table' s1))
             = self_checks s1"
  using assms
  by (auto simp: OSSL_provider_init_def OPENSSL_CTX_new_def OPENSSL_CTX_free_def Let_def
        fips_intern_provider_init_def intern_dispatch_table_def
      split: option.splits if_splits)

theorem intern_init_after_external_init_witness:
  "OSSL_provider_init sample_headers evp_good (Some 5) 0 (entries0 @ [terminator0]) state0
     = Some (1, state0\<lparr>registry := (\<lambda>v. NULL)(c_get_params := Core_function 100,
                                                c_CRYPTO_malloc := Core_function 200),
                        live_ctx := {5}, ctx_created := 1, self_checks := 1,
                        out := Fips_dispatch_table, provctx := Some 5\<rparr>) \<and>
   fips_intern_provider_init 0 []
       (state0\<lparr>registry := (\<lambda>v. NULL)(c_get_params := Core_function 100,
                                       c_CRYPTO_malloc := Core_function 200),
               live_ctx := {5}, ctx_created := 1, self_checks := 1,
               out := Fips_dispatch_table, provctx := Some 5\<rparr>)
     = (1, state0\<lparr>registry := (\<lambda>v. NULL)(c_get_params := Core_function 100,
                                           c_CRYPTO_malloc := Core_function 200),
                   live_ctx := {5}, ctx_created := 1, self_checks := 1,
                   out := Intern_dispatch_table, provctx := Some 5\<rparr>)"
  using init0_succeeds intern_init_after_external_init [OF init0_succeeds, of 0 "[]"]
  by (simp add: fips_intern_provider_init_def)

subsection \<open>The parameter protocol\<close>

lemma locate_bound:
  "OSSL_PARAM_locate ps k = Some i \<Longrightarrow> i < length ps \<and> key (ps ! i) = k"
  by (induction ps arbitrary: i) (auto split: if_splits)

lemma locate_None: "OSSL_PARAM_locate ps k = None \<longleftrightarrow> k \<notin> set (map key ps)"
  by (induction ps) auto

lemma locate_find:
  "map_option (\<lambda>i. ps ! i) (OSSL_PARAM_locate ps k) = find (\<lambda>p. key p = k) ps"
  by (induction ps) (auto simp: option.map_comp comp_def)

lemma find_filter_implied:
  "(\<And>x. Q x \<Longrightarrow> P x) \<Longrightarrow> find Q (filter P xs) = find Q xs"
  by (induction xs) auto

lemma locate_update_data:
  "OSSL_PARAM_locate (ps[i := (ps ! i)\<lparr>data := x\<rparr>]) k = OSSL_PARAM_locate ps k"
proof (induction ps arbitrary: i)
  case Nil
  then show ?case by simp
next
  case (Cons p ps)
  then show ?case by (cases i) auto
qed

lemma data_type_update_data:
  "data_type ((ps[i := (ps ! i)\<lparr>data := x\<rparr>]) ! j) = data_type (ps ! j)"
  by (cases "i < length ps") (auto simp: nth_list_update list_update_beyond)

lemma key_update_data:
  "key ((ps[i := (ps ! i)\<lparr>data := x\<rparr>]) ! j) = key (ps ! j)"
  by (cases "i < length ps") (auto simp: nth_list_update list_update_beyond)

text \<open>What one located store does, case by case.\<close>

lemma locate_and_set_cases:
  "locate_and_set H ps k val =
     (case OSSL_PARAM_locate ps k of
        None \<Rightarrow> (False, ps)
      | Some i \<Rightarrow>
          if data_type (ps ! i) \<noteq> OSSL_PARAM_UTF8_PTR H then (True, ps)
          else (False, ps[i := (ps ! i)\<lparr>data := Some val\<rparr>]))"
  by (simp add: locate_and_set_def OSSL_PARAM_set_utf8_ptr_def split: option.split)

lemma mismatch_find:
  "mismatch H ps k =
     (case find (\<lambda>p. key p = k) ps of
        None \<Rightarrow> False
      | Some p \<Rightarrow> data_type p \<noteq> OSSL_PARAM_UTF8_PTR H)"
  by (simp add: mismatch_def locate_find [symmetric] split: option.split)

lemma locate_and_set_fst: "fst (locate_and_set H ps k val) = mismatch H ps k"
  by (simp add: locate_and_set_cases mismatch_def split: option.split)

lemma locate_and_set_length: "length (snd (locate_and_set H ps k val)) = length ps"
  by (simp add: locate_and_set_cases split: option.split)

lemma locate_and_set_locate:
  "OSSL_PARAM_locate (snd (locate_and_set H ps k val)) k' = OSSL_PARAM_locate ps k'"
  by (simp add: locate_and_set_cases locate_update_data split: option.split)

lemma locate_and_set_data_type:
  "data_type (snd (locate_and_set H ps k val) ! j) = data_type (ps ! j)"
  by (simp add: locate_and_set_cases data_type_update_data split: option.split)

lemma locate_and_set_key:
  "key (snd (locate_and_set H ps k val) ! j) = key (ps ! j)"
  by (simp add: locate_and_set_cases key_update_data split: option.split)

lemma locate_and_set_mismatch:
  "mismatch H (snd (locate_and_set H ps k val)) k' = mismatch H ps k'"
  by (simp add: mismatch_def locate_and_set_locate locate_and_set_data_type
        split: option.split)

lemma locate_and_set_other_key:
  assumes "key (ps ! j) \<noteq> k"
  shows "snd (locate_and_set H ps k val) ! j = ps ! j"
proof (cases "OSSL_PARAM_locate ps k")
  case None
  then show ?thesis by (simp add: locate_and_set_cases)
next
  case (Some i)
  with assms locate_bound [of ps k i] have "i \<noteq> j" by auto
  with Some show ?thesis by (simp add: locate_and_set_cases)
qed

lemma locate_and_set_wrong_type:
  assumes "data_type (ps ! j) \<noteq> OSSL_PARAM_UTF8_PTR H"
  shows "snd (locate_and_set H ps k val) ! j = ps ! j"
proof (cases "OSSL_PARAM_locate ps k")
  case None
  then show ?thesis by (simp add: locate_and_set_cases)
next
  case (Some i)
  show ?thesis
  proof (cases "data_type (ps ! i) = OSSL_PARAM_UTF8_PTR H")
    case True
    with assms have "i \<noteq> j" by auto
    with Some True show ?thesis by (simp add: locate_and_set_cases)
  next
    case False
    with Some show ?thesis by (simp add: locate_and_set_cases)
  qed
qed

lemma locate_and_set_filled:
  "OSSL_PARAM_locate ps k = Some j \<Longrightarrow> data_type (ps ! j) = OSSL_PARAM_UTF8_PTR H \<Longrightarrow>
   snd (locate_and_set H ps k val) ! j = (ps ! j)\<lparr>data := Some val\<rparr>"
  by (auto simp: locate_and_set_cases dest: locate_bound)

lemma fips_get_params_steps:
  "fips_get_params H prov ps =
     (if mismatch H ps OSSL_PROV_PARAM_NAME then (0, after_name H ps)
      else if mismatch H ps OSSL_PROV_PARAM_VERSION then (0, after_version H ps)
      else if mismatch H ps OSSL_PROV_PARAM_BUILDINFO then (0, after_buildinfo H ps)
      else (1, after_buildinfo H ps))"
proof -
  have n: "locate_and_set H ps OSSL_PROV_PARAM_NAME ''OpenSSL FIPS Provider''
             = (mismatch H ps OSSL_PROV_PARAM_NAME, after_name H ps)"
    by (simp add: after_name_def locate_and_set_fst prod_eq_iff)
  have v: "locate_and_set H (after_name H ps) OSSL_PROV_PARAM_VERSION (OPENSSL_VERSION_STR H)
             = (mismatch H ps OSSL_PROV_PARAM_VERSION, after_version H ps)"
    using locate_and_set_fst [of H "after_name H ps" OSSL_PROV_PARAM_VERSION "OPENSSL_VERSION_STR H"]
    by (simp add: after_version_def after_name_def locate_and_set_mismatch prod_eq_iff)
  have b: "locate_and_set H (after_version H ps) OSSL_PROV_PARAM_BUILDINFO
              (OPENSSL_FULL_VERSION_STR H)
             = (mismatch H ps OSSL_PROV_PARAM_BUILDINFO, after_buildinfo H ps)"
    using locate_and_set_fst [of H "after_version H ps" OSSL_PROV_PARAM_BUILDINFO
        "OPENSSL_FULL_VERSION_STR H"]
    by (simp add: after_buildinfo_def after_version_def after_name_def
          locate_and_set_mismatch prod_eq_iff)
  show ?thesis
    by (simp add: fips_get_params_def n v b)
qed


lemma after_name_wrong_type:
  "data_type (ps ! j) \<noteq> OSSL_PARAM_UTF8_PTR H \<Longrightarrow> after_name H ps ! j = ps ! j"
  by (simp add: after_name_def locate_and_set_wrong_type)

lemma after_version_wrong_type:
  "data_type (ps ! j) \<noteq> OSSL_PARAM_UTF8_PTR H \<Longrightarrow> after_version H ps ! j = ps ! j"
  by (simp add: after_version_def locate_and_set_wrong_type after_name_wrong_type)

lemma after_buildinfo_wrong_type:
  "data_type (ps ! j) \<noteq> OSSL_PARAM_UTF8_PTR H \<Longrightarrow> after_buildinfo H ps ! j = ps ! j"
  by (simp add: after_buildinfo_def locate_and_set_wrong_type after_version_wrong_type)

lemma after_name_other_key:
  "key (ps ! j) \<noteq> OSSL_PROV_PARAM_NAME \<Longrightarrow> after_name H ps ! j = ps ! j"
  by (simp add: after_name_def locate_and_set_other_key)

lemma after_version_name_slot:
  "key (ps ! j) = OSSL_PROV_PARAM_NAME \<Longrightarrow> after_version H ps ! j = after_name H ps ! j"
proof -
  assume k: "key (ps ! j) = OSSL_PROV_PARAM_NAME"
  have "key (after_name H ps ! j) = key (ps ! j)"
    by (simp add: after_name_def locate_and_set_key)
  with k have "key (after_name H ps ! j) \<noteq> OSSL_PROV_PARAM_VERSION"
    by (simp add: OSSL_PROV_PARAM_NAME_def OSSL_PROV_PARAM_VERSION_def)
  then show ?thesis
    by (simp add: after_version_def locate_and_set_other_key)
qed

lemma after_buildinfo_name_slot:
  "key (ps ! j) = OSSL_PROV_PARAM_NAME \<Longrightarrow> after_buildinfo H ps ! j = after_version H ps ! j"
proof -
  assume k: "key (ps ! j) = OSSL_PROV_PARAM_NAME"
  have "key (after_version H ps ! j) = key (ps ! j)"
    by (simp add: after_version_def after_name_def locate_and_set_key)
  with k have "key (after_version H ps ! j) \<noteq> OSSL_PROV_PARAM_BUILDINFO"
    by (simp add: OSSL_PROV_PARAM_NAME_def OSSL_PROV_PARAM_BUILDINFO_def)
  then show ?thesis
    by (simp add: after_buildinfo_def locate_and_set_other_key)
qed

lemma after_name_filled:
  "OSSL_PARAM_locate ps OSSL_PROV_PARAM_NAME = Some j \<Longrightarrow>
   data_type (ps ! j) = OSSL_PARAM_UTF8_PTR H \<Longrightarrow>
   after_name H ps ! j = (ps ! j)\<lparr>data := Some ''OpenSSL FIPS Provider''\<rparr>"
  by (simp add: after_name_def locate_and_set_filled)

lemma after_untouched:
  assumes "key (ps ! j) \<noteq> OSSL_PROV_PARAM_NAME"
    and "key (ps ! j) \<noteq> OSSL_PROV_PARAM_VERSION"
    and "key (ps ! j) \<noteq> OSSL_PROV_PARAM_BUILDINFO"
  shows "after_name H ps ! j = ps ! j"
    and "after_version H ps ! j = ps ! j"
    and "after_buildinfo H ps ! j = ps ! j"
proof -
  show n: "after_name H ps ! j = ps ! j"
    using assms(1) by (simp add: after_name_def locate_and_set_other_key)
  show v: "after_version H ps ! j = ps ! j"
    using assms(2) n by (simp add: after_version_def locate_and_set_other_key)
  show "after_buildinfo H ps ! j = ps ! j"
    using assms(3) v by (simp add: after_buildinfo_def locate_and_set_other_key)
qed

lemma after_length:
  "length (after_name H ps) = length ps"
  "length (after_version H ps) = length ps"
  "length (after_buildinfo H ps) = length ps"
  by (simp_all add: after_name_def after_version_def after_buildinfo_def
        locate_and_set_length)

lemma after_none_located:
  assumes "OSSL_PARAM_locate ps OSSL_PROV_PARAM_NAME = None"
    and "OSSL_PARAM_locate ps OSSL_PROV_PARAM_VERSION = None"
    and "OSSL_PARAM_locate ps OSSL_PROV_PARAM_BUILDINFO = None"
  shows "after_buildinfo H ps = ps"
  using assms
  by (simp add: after_buildinfo_def after_version_def after_name_def locate_and_set_cases)

lemma mismatch_filter:
  assumes "P k"
  shows "mismatch H (filter (\<lambda>p. P (key p)) ps) k = mismatch H ps k"
proof -
  have "find (\<lambda>p. key p = k) (filter (\<lambda>p. P (key p)) ps) = find (\<lambda>p. key p = k) ps"
    using assms by (intro find_filter_implied) simp
  then show ?thesis by (simp add: mismatch_find)
qed

lemma fips_get_params_fst:
  "fst (fips_get_params H prov ps) =
     (if mismatch H ps OSSL_PROV_PARAM_NAME \<or> mismatch H ps OSSL_PROV_PARAM_VERSION
         \<or> mismatch H ps OSSL_PROV_PARAM_BUILDINFO then 0 else 1)"
  by (simp add: fips_get_params_steps)

lemma fips_get_params_snd_cases:
  "snd (fips_get_params H prov ps) = after_name H ps \<and> mismatch H ps OSSL_PROV_PARAM_NAME
   \<or> snd (fips_get_params H prov ps) = after_version H ps
       \<and> \<not> mismatch H ps OSSL_PROV_PARAM_NAME
   \<or> snd (fips_get_params H prov ps) = after_buildinfo H ps
       \<and> \<not> mismatch H ps OSSL_PROV_PARAM_NAME"
  by (simp add: fips_get_params_steps)

lemma fips_param_names:
  "snd ` set (fips_param_types H)
     = {OSSL_PROV_PARAM_NAME, OSSL_PROV_PARAM_VERSION, OSSL_PROV_PARAM_BUILDINFO}"
  by (simp add: fips_param_types_def)

lemma locate_same_slot:
  "OSSL_PARAM_locate ps k = Some j \<Longrightarrow> OSSL_PARAM_locate ps k' = Some j \<Longrightarrow> k = k'"
  using locate_bound [of ps k j] locate_bound [of ps k' j] by simp

lemma locate_and_set_nth:
  "snd (locate_and_set H ps k val) ! j =
     (if \<not> mismatch H ps k \<and> OSSL_PARAM_locate ps k = Some j
      then (ps ! j)\<lparr>data := Some val\<rparr> else ps ! j)"
proof (cases "OSSL_PARAM_locate ps k")
  case None
  then show ?thesis by (simp add: locate_and_set_cases)
next
  case (Some i)
  then have "i < length ps" using locate_bound by blast
  with Some show ?thesis
    by (auto simp: locate_and_set_cases mismatch_def nth_list_update)
qed

lemma locate_and_set_mismatch_id:
  "mismatch H ps k \<Longrightarrow> snd (locate_and_set H ps k val) = ps"
  by (auto simp: locate_and_set_cases mismatch_def split: option.splits)

lemma after_name_nth:
  "after_name H ps ! j =
     (if \<not> mismatch H ps OSSL_PROV_PARAM_NAME
         \<and> OSSL_PARAM_locate ps OSSL_PROV_PARAM_NAME = Some j
      then (ps ! j)\<lparr>data := Some ''OpenSSL FIPS Provider''\<rparr> else ps ! j)"
  by (simp add: after_name_def locate_and_set_nth)

lemma after_version_nth:
  "after_version H ps ! j =
     (if \<not> mismatch H ps OSSL_PROV_PARAM_VERSION
         \<and> OSSL_PARAM_locate ps OSSL_PROV_PARAM_VERSION = Some j
      then (ps ! j)\<lparr>data := Some (OPENSSL_VERSION_STR H)\<rparr> else after_name H ps ! j)"
proof -
  have n: "after_name H ps ! j = ps ! j"
    if "OSSL_PARAM_locate ps OSSL_PROV_PARAM_VERSION = Some j"
  proof -
    have "OSSL_PARAM_locate ps OSSL_PROV_PARAM_NAME \<noteq> Some j"
      using that locate_same_slot [of ps OSSL_PROV_PARAM_NAME j OSSL_PROV_PARAM_VERSION]
      by (auto simp: OSSL_PROV_PARAM_NAME_def OSSL_PROV_PARAM_VERSION_def)
    then show ?thesis by (simp add: after_name_nth)
  qed
  have "after_version H ps ! j =
     (if \<not> mismatch H ps OSSL_PROV_PARAM_VERSION
         \<and> OSSL_PARAM_locate ps OSSL_PROV_PARAM_VERSION = Some j
      then (after_name H ps ! j)\<lparr>data := Some (OPENSSL_VERSION_STR H)\<rparr>
      else after_name H ps ! j)"
    unfolding after_version_def locate_and_set_nth
    by (simp add: after_name_def locate_and_set_mismatch locate_and_set_locate)
  with n show ?thesis by auto
qed

lemma after_buildinfo_nth:
  "after_buildinfo H ps ! j =
     (if \<not> mismatch H ps OSSL_PROV_PARAM_BUILDINFO
         \<and> OSSL_PARAM_locate ps OSSL_PROV_PARAM_BUILDINFO = Some j
      then (ps ! j)\<lparr>data := Some (OPENSSL_FULL_VERSION_STR H)\<rparr>
      else after_version H ps ! j)"
proof -
  have v: "after_version H ps ! j = ps ! j"
    if "OSSL_PARAM_locate ps OSSL_PROV_PARAM_BUILDINFO = Some j"
  proof -
    have "OSSL_PARAM_locate ps OSSL_PROV_PARAM_NAME \<noteq> Some j"
      using that locate_same_slot [of ps OSSL_PROV_PARAM_NAME j OSSL_PROV_PARAM_BUILDINFO]
      by (auto simp: OSSL_PROV_PARAM_NAME_def OSSL_PROV_PARAM_BUILDINFO_def)
    moreover have "OSSL_PARAM_locate ps OSSL_PROV_PARAM_VERSION \<noteq> Some j"
      using that locate_same_slot [of ps OSSL_PROV_PARAM_VERSION j OSSL_PROV_PARAM_BUILDINFO]
      by (auto simp: OSSL_PROV_PARAM_VERSION_def OSSL_PROV_PARAM_BUILDINFO_def)
    ultimately show ?thesis by (simp add: after_version_nth after_name_nth)
  qed
  have "after_buildinfo H ps ! j =
     (if \<not> mismatch H ps OSSL_PROV_PARAM_BUILDINFO
         \<and> OSSL_PARAM_locate ps OSSL_PROV_PARAM_BUILDINFO = Some j
      then (after_version H ps ! j)\<lparr>data := Some (OPENSSL_FULL_VERSION_STR H)\<rparr>
      else after_version H ps ! j)"
    unfolding after_buildinfo_def locate_and_set_nth
    by (simp add: after_version_def after_name_def locate_and_set_mismatch
          locate_and_set_locate)
  with v show ?thesis by auto
qed

lemma after_name_mismatch_id:
  "mismatch H ps OSSL_PROV_PARAM_NAME \<Longrightarrow> after_name H ps = ps"
  by (simp add: after_name_def locate_and_set_mismatch_id)

text \<open>
  C3, as the code has it. The claim says that a call in which some slot with a known
  name has the wrong declared type fails without any partial fill.
  \<^verbatim>\<open>fips_get_params\<close> handles name, version and buildinfo in this order and returns at
  the first mismatch: in the first call below the slot for name has the right type and the
  slot for version has not; the call returns 0, and the slot for name has been filled.
  Only the slot \<open>OSSL_PARAM_locate\<close> finds for a name, the first one with that name, is
  looked at: in the second call a second slot for name has the wrong type, and the call
  returns 1.
\<close>

theorem fips_get_params_partial_fill_counterexample:
  "fips_get_params sample_headers 0
      [\<lparr>key = ''name'', data_type = 6, data = None\<rparr>,
       \<lparr>key = ''version'', data_type = 1, data = None\<rparr>]
     = (0, [\<lparr>key = ''name'', data_type = 6, data = Some ''OpenSSL FIPS Provider''\<rparr>,
            \<lparr>key = ''version'', data_type = 1, data = None\<rparr>]) \<and>
   fips_get_params sample_headers 0
      [\<lparr>key = ''name'', data_type = 6, data = None\<rparr>,
       \<lparr>key = ''name'', data_type = 1, data = None\<rparr>]
     = (1, [\<lparr>key = ''name'', data_type = 6, data = Some ''OpenSSL FIPS Provider''\<rparr>,
            \<lparr>key = ''name'', data_type = 1, data = None\<rparr>]) \<and>
   OSSL_PARAM_UTF8_PTR sample_headers = 6"
  by (simp add: fips_get_params_def locate_and_set_def OSSL_PARAM_set_utf8_ptr_def
        sample_headers_def OSSL_PROV_PARAM_NAME_def OSSL_PROV_PARAM_VERSION_def
        OSSL_PROV_PARAM_BUILDINFO_def)

text \<open>
  C3, amended. For every get-parameters call in which the slot located for a known
  parameter name (the first slot with that name) has a declared type other than the
  parameter's type, the call returns 0 and that slot is not filled. The call is one pass
  or fail, but the fill is not undone: the names are handled in the order name, version,
  buildinfo, and the call stops at the first name whose located slot has the wrong type.
  When that is name, the array is as it was; when it is version, the slot located for
  name is filled with the display name and no other slot is changed; when it is
  buildinfo, the slots located for name and for version are filled with the display name
  and the version string and no other slot is changed.
\<close>

theorem fips_get_params_type_mismatch:
  assumes "k \<in> set (map snd (fips_param_types H))"
    and "OSSL_PARAM_locate params k = Some i"
    and "data_type (params ! i) \<noteq> OSSL_PARAM_UTF8_PTR H"
  shows "fst (fips_get_params H prov params) = 0 \<and>
         length (snd (fips_get_params H prov params)) = length params \<and>
         data (snd (fips_get_params H prov params) ! i) = data (params ! i) \<and>
         (\<forall>j. OSSL_PARAM_locate params OSSL_PROV_PARAM_NAME = Some j \<and>
               data_type (params ! j) = OSSL_PARAM_UTF8_PTR H
            \<longrightarrow> snd (fips_get_params H prov params) ! j
                  = (params ! j)\<lparr>data := Some ''OpenSSL FIPS Provider''\<rparr>) \<and>
         (mismatch H params OSSL_PROV_PARAM_NAME
            \<longrightarrow> snd (fips_get_params H prov params) = params) \<and>
         (\<not> mismatch H params OSSL_PROV_PARAM_NAME
            \<and> mismatch H params OSSL_PROV_PARAM_VERSION
            \<longrightarrow> (\<forall>j < length params. snd (fips_get_params H prov params) ! j =
                  (if OSSL_PARAM_locate params OSSL_PROV_PARAM_NAME = Some j
                   then (params ! j)\<lparr>data := Some ''OpenSSL FIPS Provider''\<rparr>
                   else params ! j))) \<and>
         (\<not> mismatch H params OSSL_PROV_PARAM_NAME
            \<and> \<not> mismatch H params OSSL_PROV_PARAM_VERSION
            \<longrightarrow> mismatch H params OSSL_PROV_PARAM_BUILDINFO \<and>
                (\<forall>j < length params. snd (fips_get_params H prov params) ! j =
                  (if OSSL_PARAM_locate params OSSL_PROV_PARAM_NAME = Some j
                   then (params ! j)\<lparr>data := Some ''OpenSSL FIPS Provider''\<rparr>
                   else if OSSL_PARAM_locate params OSSL_PROV_PARAM_VERSION = Some j
                   then (params ! j)\<lparr>data := Some (OPENSSL_VERSION_STR H)\<rparr>
                   else params ! j)))"
proof -
  let ?r = "snd (fips_get_params H prov params)"
  have m: "mismatch H params k"
    using assms(2,3) by (simp add: mismatch_def)
  with assms(1) have some: "mismatch H params OSSL_PROV_PARAM_NAME
      \<or> mismatch H params OSSL_PROV_PARAM_VERSION
      \<or> mismatch H params OSSL_PROV_PARAM_BUILDINFO"
    by (auto simp: fips_param_names)
  then have ret: "fst (fips_get_params H prov params) = 0"
    by (auto simp: fips_get_params_fst)
  have len: "length ?r = length params"
    using fips_get_params_snd_cases [of H prov params] by (auto simp: after_length)
  have "?r ! i = params ! i"
    using fips_get_params_snd_cases [of H prov params] assms(3)
    by (auto simp: after_name_wrong_type after_version_wrong_type after_buildinfo_wrong_type)
  then have same: "data (?r ! i) = data (params ! i)"
    by simp
  have fill: "?r ! j = (params ! j)\<lparr>data := Some ''OpenSSL FIPS Provider''\<rparr>"
    if j: "OSSL_PARAM_locate params OSSL_PROV_PARAM_NAME = Some j"
      and ty: "data_type (params ! j) = OSSL_PARAM_UTF8_PTR H" for j
  proof -
    from j ty have nm: "\<not> mismatch H params OSSL_PROV_PARAM_NAME"
      by (simp add: mismatch_def)
    from j have kj: "key (params ! j) = OSSL_PROV_PARAM_NAME"
      using locate_bound by blast
    have "after_version H params ! j = after_name H params ! j"
      and "after_buildinfo H params ! j = after_name H params ! j"
      using kj by (simp_all add: after_version_name_slot after_buildinfo_name_slot)
    with fips_get_params_snd_cases [of H prov params] nm after_name_filled [OF j ty]
    show ?thesis by auto
  qed
  have c1: "?r = params" if "mismatch H params OSSL_PROV_PARAM_NAME"
    using that by (simp add: fips_get_params_steps after_name_mismatch_id)
  have c2: "?r ! j =
          (if OSSL_PARAM_locate params OSSL_PROV_PARAM_NAME = Some j
           then (params ! j)\<lparr>data := Some ''OpenSSL FIPS Provider''\<rparr>
           else params ! j)"
    if "\<not> mismatch H params OSSL_PROV_PARAM_NAME"
      and "mismatch H params OSSL_PROV_PARAM_VERSION" for j
    using that by (simp add: fips_get_params_steps after_version_nth after_name_nth)
  have c3: "mismatch H params OSSL_PROV_PARAM_BUILDINFO \<and> ?r ! j =
          (if OSSL_PARAM_locate params OSSL_PROV_PARAM_NAME = Some j
           then (params ! j)\<lparr>data := Some ''OpenSSL FIPS Provider''\<rparr>
           else if OSSL_PARAM_locate params OSSL_PROV_PARAM_VERSION = Some j
           then (params ! j)\<lparr>data := Some (OPENSSL_VERSION_STR H)\<rparr>
           else params ! j)"
    if "\<not> mismatch H params OSSL_PROV_PARAM_NAME"
      and "\<not> mismatch H params OSSL_PROV_PARAM_VERSION" for j
  proof -
    from that some have b: "mismatch H params OSSL_PROV_PARAM_BUILDINFO" by blast
    have "OSSL_PARAM_locate params OSSL_PROV_PARAM_NAME \<noteq> Some j"
      if "OSSL_PARAM_locate params OSSL_PROV_PARAM_VERSION = Some j"
      using that locate_same_slot [of params OSSL_PROV_PARAM_NAME j OSSL_PROV_PARAM_VERSION]
      by (auto simp: OSSL_PROV_PARAM_NAME_def OSSL_PROV_PARAM_VERSION_def)
    with b \<open>\<not> mismatch H params OSSL_PROV_PARAM_NAME\<close>
      \<open>\<not> mismatch H params OSSL_PROV_PARAM_VERSION\<close>
    show ?thesis
      by (auto simp: fips_get_params_steps after_buildinfo_nth after_version_nth
            after_name_nth)
  qed
  from ret len same fill c1 c2 c3 show ?thesis by blast
qed

lemma get_params_sample_late_mismatch:
  "fips_get_params sample_headers 0
      [\<lparr>key = ''name'', data_type = 6, data = None\<rparr>,
       \<lparr>key = ''version'', data_type = 6, data = None\<rparr>,
       \<lparr>key = ''buildinfo'', data_type = 1, data = None\<rparr>]
     = (0, [\<lparr>key = ''name'', data_type = 6, data = Some ''OpenSSL FIPS Provider''\<rparr>,
            \<lparr>key = ''version'', data_type = 6, data = Some ''3.0.0''\<rparr>,
            \<lparr>key = ''buildinfo'', data_type = 1, data = None\<rparr>])"
  by (simp add: fips_get_params_def locate_and_set_def OSSL_PARAM_set_utf8_ptr_def
        sample_headers_def OSSL_PROV_PARAM_NAME_def OSSL_PROV_PARAM_VERSION_def
        OSSL_PROV_PARAM_BUILDINFO_def)

lemma get_params_sample_early_mismatch:
  "fips_get_params sample_headers 0
      [\<lparr>key = ''name'', data_type = 1, data = None\<rparr>,
       \<lparr>key = ''version'', data_type = 6, data = None\<rparr>,
       \<lparr>key = ''buildinfo'', data_type = 6, data = None\<rparr>]
     = (0, [\<lparr>key = ''name'', data_type = 1, data = None\<rparr>,
            \<lparr>key = ''version'', data_type = 6, data = None\<rparr>,
            \<lparr>key = ''buildinfo'', data_type = 6, data = None\<rparr>])"
  by (simp add: fips_get_params_def locate_and_set_def OSSL_PARAM_set_utf8_ptr_def
        sample_headers_def OSSL_PROV_PARAM_NAME_def OSSL_PROV_PARAM_VERSION_def
        OSSL_PROV_PARAM_BUILDINFO_def)

theorem fips_get_params_type_mismatch_witness:
  "''buildinfo'' \<in> set (map snd (fips_param_types sample_headers)) \<and>
   OSSL_PARAM_locate
      [\<lparr>key = ''name'', data_type = 6, data = None\<rparr>,
       \<lparr>key = ''version'', data_type = 6, data = None\<rparr>,
       \<lparr>key = ''buildinfo'', data_type = 1, data = None\<rparr>] ''buildinfo'' = Some 2 \<and>
   OSSL_PARAM_UTF8_PTR sample_headers = 6 \<and>
   fips_get_params sample_headers 0
      [\<lparr>key = ''name'', data_type = 6, data = None\<rparr>,
       \<lparr>key = ''version'', data_type = 6, data = None\<rparr>,
       \<lparr>key = ''buildinfo'', data_type = 1, data = None\<rparr>]
     = (0, [\<lparr>key = ''name'', data_type = 6, data = Some ''OpenSSL FIPS Provider''\<rparr>,
            \<lparr>key = ''version'', data_type = 6, data = Some ''3.0.0''\<rparr>,
            \<lparr>key = ''buildinfo'', data_type = 1, data = None\<rparr>]) \<and>
   ''name'' \<in> set (map snd (fips_param_types sample_headers)) \<and>
   OSSL_PARAM_locate
      [\<lparr>key = ''name'', data_type = 1, data = None\<rparr>,
       \<lparr>key = ''version'', data_type = 6, data = None\<rparr>,
       \<lparr>key = ''buildinfo'', data_type = 6, data = None\<rparr>] ''name'' = Some 0 \<and>
   fips_get_params sample_headers 0
      [\<lparr>key = ''name'', data_type = 1, data = None\<rparr>,
       \<lparr>key = ''version'', data_type = 6, data = None\<rparr>,
       \<lparr>key = ''buildinfo'', data_type = 6, data = None\<rparr>]
     = (0, [\<lparr>key = ''name'', data_type = 1, data = None\<rparr>,
            \<lparr>key = ''version'', data_type = 6, data = None\<rparr>,
            \<lparr>key = ''buildinfo'', data_type = 6, data = None\<rparr>])"
proof -
  let ?late = "[\<lparr>key = ''name'', data_type = 6, data = None\<rparr>,
                \<lparr>key = ''version'', data_type = 6, data = None\<rparr>,
                \<lparr>key = ''buildinfo'', data_type = 1, data = None\<rparr>]"
  let ?early = "[\<lparr>key = ''name'', data_type = 1, data = None\<rparr>,
                 \<lparr>key = ''version'', data_type = 6, data = None\<rparr>,
                 \<lparr>key = ''buildinfo'', data_type = 6, data = None\<rparr>]"
  have b: "''buildinfo'' \<in> set (map snd (fips_param_types sample_headers))"
    by (simp add: fips_param_types_def OSSL_PROV_PARAM_BUILDINFO_def)
  have n: "''name'' \<in> set (map snd (fips_param_types sample_headers))"
    by (simp add: fips_param_types_def OSSL_PROV_PARAM_NAME_def)
  have lb: "OSSL_PARAM_locate ?late ''buildinfo'' = Some 2"
    by simp
  have ln: "OSSL_PARAM_locate ?early ''name'' = Some 0"
    by simp
  have tb: "data_type (?late ! 2) \<noteq> OSSL_PARAM_UTF8_PTR sample_headers"
    by (simp add: sample_headers_def)
  have tn: "data_type (?early ! 0) \<noteq> OSSL_PARAM_UTF8_PTR sample_headers"
    by (simp add: sample_headers_def)
  have u: "OSSL_PARAM_UTF8_PTR sample_headers = 6"
    by (simp add: sample_headers_def)
  have r1: "fst (fips_get_params sample_headers 0 ?late) = 0"
    using fips_get_params_type_mismatch [OF b lb tb, of 0] by (rule conjunct1)
  have r2: "fst (fips_get_params sample_headers 0 ?early) = 0"
    using fips_get_params_type_mismatch [OF n ln tn, of 0] by (rule conjunct1)
  show ?thesis
    using b n lb ln u r1 r2 get_params_sample_late_mismatch get_params_sample_early_mismatch
    by simp
qed

text \<open>
  C7, as the code has it. The claim says that the call returns success however many
  slots went unmatched. Below, one slot is unmatched and the slot for version has the
  wrong declared type: the call returns 0.
\<close>

theorem fips_get_params_unmatched_counterexample:
  "fips_get_params sample_headers 0
      [\<lparr>key = ''foo'', data_type = 1, data = None\<rparr>,
       \<lparr>key = ''version'', data_type = 1, data = None\<rparr>]
     = (0, [\<lparr>key = ''foo'', data_type = 1, data = None\<rparr>,
            \<lparr>key = ''version'', data_type = 1, data = None\<rparr>]) \<and>
   ''foo'' \<notin> set (map snd (fips_param_types sample_headers)) \<and>
   OSSL_PARAM_UTF8_PTR sample_headers = 6"
  by (simp add: fips_get_params_def locate_and_set_def OSSL_PARAM_set_utf8_ptr_def
        fips_param_types_def
        sample_headers_def OSSL_PROV_PARAM_NAME_def OSSL_PROV_PARAM_VERSION_def
        OSSL_PROV_PARAM_BUILDINFO_def)

text \<open>
  C7, amended. For every get-parameters call, every slot whose name is not in the
  module's descriptor list (name, version, buildinfo) is at the return as it was at the
  call, and such slots have no part in the value returned: the call returns what it
  returns on the array without them. It returns 1, however many slots went unmatched,
  exactly when no slot located for name, version or buildinfo has a declared type other
  than the parameter's type, and 0 otherwise; when it returns 1, each located slot holds
  its parameter's value and every other slot is as it was (the whole array, when no slot
  has a name of the list).
\<close>

theorem fips_get_params_unmatched:
  "length (snd (fips_get_params H prov params)) = length params \<and>
   (\<forall>j < length params. key (params ! j) \<notin> set (map snd (fips_param_types H))
       \<longrightarrow> snd (fips_get_params H prov params) ! j = params ! j) \<and>
   fst (fips_get_params H prov params)
     = fst (fips_get_params H prov
              (filter (\<lambda>p. key p \<in> set (map snd (fips_param_types H))) params)) \<and>
   (set (map key params) \<inter> set (map snd (fips_param_types H)) = {}
       \<longrightarrow> fips_get_params H prov params = (1, params)) \<and>
   fst (fips_get_params H prov params)
     = (if mismatch H params OSSL_PROV_PARAM_NAME
           \<or> mismatch H params OSSL_PROV_PARAM_VERSION
           \<or> mismatch H params OSSL_PROV_PARAM_BUILDINFO then 0 else 1) \<and>
   (\<not> mismatch H params OSSL_PROV_PARAM_NAME
      \<and> \<not> mismatch H params OSSL_PROV_PARAM_VERSION
      \<and> \<not> mismatch H params OSSL_PROV_PARAM_BUILDINFO
      \<longrightarrow> fst (fips_get_params H prov params) = 1 \<and>
          (\<forall>j < length params. snd (fips_get_params H prov params) ! j =
             (if OSSL_PARAM_locate params OSSL_PROV_PARAM_NAME = Some j
              then (params ! j)\<lparr>data := Some ''OpenSSL FIPS Provider''\<rparr>
              else if OSSL_PARAM_locate params OSSL_PROV_PARAM_VERSION = Some j
              then (params ! j)\<lparr>data := Some (OPENSSL_VERSION_STR H)\<rparr>
              else if OSSL_PARAM_locate params OSSL_PROV_PARAM_BUILDINFO = Some j
              then (params ! j)\<lparr>data := Some (OPENSSL_FULL_VERSION_STR H)\<rparr>
              else params ! j)))"
proof -
  let ?names = "set (map snd (fips_param_types H))"
  let ?r = "snd (fips_get_params H prov params)"
  have len: "length ?r = length params"
    using fips_get_params_snd_cases [of H prov params] by (auto simp: after_length)
  have same: "?r ! j = params ! j"
    if "key (params ! j) \<notin> ?names" for j
    using that fips_get_params_snd_cases [of H prov params]
    by (auto simp: fips_param_names after_untouched)
  have mf: "mismatch H (filter (\<lambda>p. key p \<in> ?names) params) k = mismatch H params k"
    if "k \<in> ?names" for k
    using that by (rule mismatch_filter [of "\<lambda>k. k \<in> ?names"])
  have "OSSL_PROV_PARAM_NAME \<in> ?names" "OSSL_PROV_PARAM_VERSION \<in> ?names"
    "OSSL_PROV_PARAM_BUILDINFO \<in> ?names"
    by (simp_all add: fips_param_names)
  then have ret: "fst (fips_get_params H prov params)
     = fst (fips_get_params H prov (filter (\<lambda>p. key p \<in> ?names) params))"
    by (simp only: fips_get_params_fst mf)
  have none: "fips_get_params H prov params = (1, params)"
    if "set (map key params) \<inter> ?names = {}"
  proof -
    from that have l: "OSSL_PARAM_locate params OSSL_PROV_PARAM_NAME = None"
      "OSSL_PARAM_locate params OSSL_PROV_PARAM_VERSION = None"
      "OSSL_PARAM_locate params OSSL_PROV_PARAM_BUILDINFO = None"
      by (auto simp: locate_None fips_param_names)
    then show ?thesis
      by (simp add: fips_get_params_steps mismatch_def after_none_located)
  qed
  have code: "fst (fips_get_params H prov params)
     = (if mismatch H params OSSL_PROV_PARAM_NAME
           \<or> mismatch H params OSSL_PROV_PARAM_VERSION
           \<or> mismatch H params OSSL_PROV_PARAM_BUILDINFO then 0 else 1)"
    by (rule fips_get_params_fst)
  have ok: "fst (fips_get_params H prov params) = 1 \<and> ?r ! j =
             (if OSSL_PARAM_locate params OSSL_PROV_PARAM_NAME = Some j
              then (params ! j)\<lparr>data := Some ''OpenSSL FIPS Provider''\<rparr>
              else if OSSL_PARAM_locate params OSSL_PROV_PARAM_VERSION = Some j
              then (params ! j)\<lparr>data := Some (OPENSSL_VERSION_STR H)\<rparr>
              else if OSSL_PARAM_locate params OSSL_PROV_PARAM_BUILDINFO = Some j
              then (params ! j)\<lparr>data := Some (OPENSSL_FULL_VERSION_STR H)\<rparr>
              else params ! j)"
    if nm: "\<not> mismatch H params OSSL_PROV_PARAM_NAME"
       "\<not> mismatch H params OSSL_PROV_PARAM_VERSION"
       "\<not> mismatch H params OSSL_PROV_PARAM_BUILDINFO" for j
  proof -
    have nv: "OSSL_PARAM_locate params OSSL_PROV_PARAM_NAME \<noteq> Some j"
      if "OSSL_PARAM_locate params OSSL_PROV_PARAM_VERSION = Some j"
      using that locate_same_slot [of params OSSL_PROV_PARAM_NAME j OSSL_PROV_PARAM_VERSION]
      by (auto simp: OSSL_PROV_PARAM_NAME_def OSSL_PROV_PARAM_VERSION_def)
    have nb: "OSSL_PARAM_locate params OSSL_PROV_PARAM_NAME \<noteq> Some j
              \<and> OSSL_PARAM_locate params OSSL_PROV_PARAM_VERSION \<noteq> Some j"
      if "OSSL_PARAM_locate params OSSL_PROV_PARAM_BUILDINFO = Some j"
      using that
        locate_same_slot [of params OSSL_PROV_PARAM_NAME j OSSL_PROV_PARAM_BUILDINFO]
        locate_same_slot [of params OSSL_PROV_PARAM_VERSION j OSSL_PROV_PARAM_BUILDINFO]
      by (auto simp: OSSL_PROV_PARAM_NAME_def OSSL_PROV_PARAM_VERSION_def
            OSSL_PROV_PARAM_BUILDINFO_def)
    from nm nv nb show ?thesis
      by (auto simp: fips_get_params_steps after_buildinfo_nth after_version_nth
            after_name_nth)
  qed
  from len same ret none code ok show ?thesis by blast
qed

theorem fips_get_params_unmatched_witness:
  "\<not> mismatch sample_headers
        [\<lparr>key = ''name'', data_type = 6, data = None\<rparr>,
         \<lparr>key = ''foo'', data_type = 1, data = None\<rparr>,
         \<lparr>key = ''buildinfo'', data_type = 6, data = None\<rparr>] OSSL_PROV_PARAM_NAME \<and>
   \<not> mismatch sample_headers
        [\<lparr>key = ''name'', data_type = 6, data = None\<rparr>,
         \<lparr>key = ''foo'', data_type = 1, data = None\<rparr>,
         \<lparr>key = ''buildinfo'', data_type = 6, data = None\<rparr>] OSSL_PROV_PARAM_VERSION \<and>
   \<not> mismatch sample_headers
        [\<lparr>key = ''name'', data_type = 6, data = None\<rparr>,
         \<lparr>key = ''foo'', data_type = 1, data = None\<rparr>,
         \<lparr>key = ''buildinfo'', data_type = 6, data = None\<rparr>] OSSL_PROV_PARAM_BUILDINFO \<and>
   ''foo'' \<notin> set (map snd (fips_param_types sample_headers)) \<and>
   fips_get_params sample_headers 0
      [\<lparr>key = ''name'', data_type = 6, data = None\<rparr>,
       \<lparr>key = ''foo'', data_type = 1, data = None\<rparr>,
       \<lparr>key = ''buildinfo'', data_type = 6, data = None\<rparr>]
     = (1, [\<lparr>key = ''name'', data_type = 6, data = Some ''OpenSSL FIPS Provider''\<rparr>,
            \<lparr>key = ''foo'', data_type = 1, data = None\<rparr>,
            \<lparr>key = ''buildinfo'', data_type = 6, data = Some ''3.0.0-dev''\<rparr>])"
proof -
  let ?ps = "[\<lparr>key = ''name'', data_type = 6, data = None\<rparr>,
              \<lparr>key = ''foo'', data_type = 1, data = None\<rparr>,
              \<lparr>key = ''buildinfo'', data_type = 6, data = None\<rparr>]"
  have e: "fips_get_params sample_headers 0 ?ps
     = (1, [\<lparr>key = ''name'', data_type = 6, data = Some ''OpenSSL FIPS Provider''\<rparr>,
            \<lparr>key = ''foo'', data_type = 1, data = None\<rparr>,
            \<lparr>key = ''buildinfo'', data_type = 6, data = Some ''3.0.0-dev''\<rparr>])"
    by (simp add: fips_get_params_def locate_and_set_def OSSL_PARAM_set_utf8_ptr_def
          sample_headers_def OSSL_PROV_PARAM_NAME_def OSSL_PROV_PARAM_VERSION_def
          OSSL_PROV_PARAM_BUILDINFO_def)
  have m: "\<not> mismatch sample_headers ?ps OSSL_PROV_PARAM_NAME"
    "\<not> mismatch sample_headers ?ps OSSL_PROV_PARAM_VERSION"
    "\<not> mismatch sample_headers ?ps OSSL_PROV_PARAM_BUILDINFO"
    by (simp_all add: mismatch_def sample_headers_def OSSL_PROV_PARAM_NAME_def
          OSSL_PROV_PARAM_VERSION_def OSSL_PROV_PARAM_BUILDINFO_def)
  have k: "''foo'' \<notin> set (map snd (fips_param_types sample_headers))"
    by (simp add: fips_param_types_def OSSL_PROV_PARAM_NAME_def OSSL_PROV_PARAM_VERSION_def
          OSSL_PROV_PARAM_BUILDINFO_def)
  have r: "fst (fips_get_params sample_headers 0 ?ps) = 1"
    using fips_get_params_unmatched [of sample_headers 0 ?ps] m by blast
  show ?thesis
    using e m k r by simp
qed

end
